theory Spec2Isabelle
  imports Main "HOL-Library.Word"
begin

unbundle bit_operations_syntax

section \<open>JavaScript string primitives\<close>

text \<open>
  The source is JavaScript. Its strings are sequences of code units, modelled as lists:
  \<open>string\<close> for URLs, identifiers and file names, \<open>16 word list\<close> where the code
  reads the code units themselves (\<open>charCodeAt\<close>). The helpers below are the built-in
  \<open>String\<close> methods the modelled functions call, on lists of any element type.
\<close>

definition startsWith :: "'a list \<Rightarrow> 'a list \<Rightarrow> bool" where
  "startsWith s p = (take (length p) s = p)"

fun str_includes :: "'a list \<Rightarrow> 'a list \<Rightarrow> bool" where
  "str_includes [] p = (p = [])"
| "str_includes (c # cs) p = (startsWith (c # cs) p \<or> str_includes cs p)"

text \<open>\<open>s.split(sep)\<close> for a non-empty separator: the pieces between the occurrences of
  \<open>sep\<close>, found left to right without overlap.\<close>

fun split_acc :: "'a list \<Rightarrow> 'a list \<Rightarrow> 'a list \<Rightarrow> 'a list list" where
  "split_acc sep acc [] = [rev acc]"
| "split_acc sep acc (c # cs) =
     (if sep \<noteq> [] \<and> startsWith (c # cs) sep
      then rev acc # split_acc sep [] (drop (length sep - 1) cs)
      else split_acc sep (c # acc) cs)"

definition js_split :: "'a list \<Rightarrow> 'a list \<Rightarrow> 'a list list" where
  "js_split s sep = split_acc sep [] s"

text \<open>\<open>s.split(sep)[1]\<close>; \<open>None\<close> is JavaScript's \<open>undefined\<close>.\<close>

definition split_second :: "'a list \<Rightarrow> 'a list \<Rightarrow> 'a list option" where
  "split_second s sep = (case js_split s sep of _ # b # _ \<Rightarrow> Some b | _ \<Rightarrow> None)"

text \<open>\<open>s.split(sep).pop()\<close>: the last piece (\<open>js_split\<close> never returns an empty array).\<close>

definition split_pop :: "'a list \<Rightarrow> 'a list \<Rightarrow> 'a list" where
  "split_pop s sep = last (js_split s sep)"

text \<open>\<open>s.replace(pat, rep)\<close> with a string pattern: the first occurrence only.\<close>

fun replace_first :: "'a list \<Rightarrow> 'a list \<Rightarrow> 'a list \<Rightarrow> 'a list" where
  "replace_first [] pat rep = (if pat = [] then rep else [])"
| "replace_first (c # cs) pat rep =
     (if startsWith (c # cs) pat then rep @ drop (length pat) (c # cs)
      else c # replace_first cs pat rep)"

text \<open>\<open>s.lastIndexOf(ch)\<close> for a single character; \<open>None\<close> is the result \<open>-1\<close>.\<close>

fun lastIndexOf :: "'a list \<Rightarrow> 'a \<Rightarrow> nat option" where
  "lastIndexOf [] ch = None"
| "lastIndexOf (c # cs) ch =
     (case lastIndexOf cs ch of
        Some i \<Rightarrow> Some (Suc i)
      | None \<Rightarrow> if c = ch then Some 0 else None)"

text \<open>\<open>s.toLowerCase()\<close> on code units below 256: the ASCII capitals and the Latin-1
  capitals (all of \<open>C0\<close>..\<open>DE\<close> but the multiplication sign \<open>D7\<close>) move up by 32.\<close>

definition lower_char :: "char \<Rightarrow> char" where
  "lower_char c =
     (let n = of_char c :: nat
      in if (65 \<le> n \<and> n \<le> 90) \<or> (192 \<le> n \<and> n \<le> 222 \<and> n \<noteq> 215)
         then char_of (n + 32) else c)"

definition toLowerCase :: "string \<Rightarrow> string" where
  "toLowerCase s = map lower_char s"

text \<open>The character class \<open>[a-zA-Z0-9_\-]\<close> and the replacement
  \<open>s.replace(/[^a-zA-Z0-9_\-]/g, '_')\<close>.\<close>

definition is_name_char :: "char \<Rightarrow> bool" where
  "is_name_char c =
     (let n = of_char c :: nat
      in (97 \<le> n \<and> n \<le> 122) \<or> (65 \<le> n \<and> n \<le> 90) \<or> (48 \<le> n \<and> n \<le> 57)
         \<or> c = CHR ''_'' \<or> c = CHR ''-'')"

definition sanitize :: "string \<Rightarrow> string" where
  "sanitize s = map (\<lambda>c. if is_name_char c then c else CHR ''_'') s"

text \<open>A value is truthy in a condition or under \<open>||\<close>: an absent (\<open>undefined\<close>,
  \<open>null\<close>) or empty string is not.\<close>

definition truthy :: "'a list option \<Rightarrow> bool" where
  "truthy v = (case v of None \<Rightarrow> False | Some s \<Rightarrow> s \<noteq> [])"

text \<open>\<open>a || b\<close> on optional strings.\<close>

definition js_or :: "'a list option \<Rightarrow> 'a list option \<Rightarrow> 'a list option" where
  "js_or a b = (if truthy a then a else b)"

section \<open>Credential cache (modules/auth.js)\<close>

type_synonym jsstring = "16 word list"

text \<open>\<open>key.charCodeAt(i % key.length)\<close> as the right operand of \<open>^\<close>. For an empty key
  the index is \<open>NaN\<close>, \<open>charCodeAt\<close> returns \<open>NaN\<close>, and \<open>^\<close> reads it as 0.\<close>

definition keyCodeAt :: "jsstring \<Rightarrow> nat \<Rightarrow> 16 word" where
  "keyCodeAt key i = (if key = [] then 0 else key ! (i mod length key))"

definition encryptToken :: "jsstring \<Rightarrow> jsstring \<Rightarrow> jsstring" where
  "encryptToken token key =
     map (\<lambda>i. (token ! i) XOR keyCodeAt key i) [0..<length token]"

definition decryptToken :: "jsstring \<Rightarrow> jsstring \<Rightarrow> jsstring" where
  "decryptToken token key =
     map (\<lambda>i. (token ! i) XOR keyCodeAt key i) [0..<length token]"

text \<open>The module's \<open>sessionCache\<close>. \<open>initialize()\<close> runs when the module loads and sets
  \<open>tokenEncryptionKey\<close> before any call of \<open>getAccessToken\<close>, and nothing resets it, so
  the key field is always a string; \<open>token\<close> and \<open>expiry\<close> start as \<open>null\<close>.\<close>

record sessionCache =
  token :: "jsstring option"
  expiry :: "nat option"
  tokenEncryptionKey :: jsstring

text \<open>What the host answers while a token is fetched: whether \<open>chrome.runtime\<close> exists,
  the background script's reply to \<open>getAuthToken\<close> (\<open>None\<close> when \<open>lastError\<close> is set
  or the reply is empty; otherwise its \<open>success\<close> and \<open>token\<close> fields), and the reply of
  the session endpoint.\<close>

datatype session_reply =
    FetchRejected
  | HttpReply (reply_ok: bool) (reply_status: nat) (reply_accessToken: "jsstring option")

record auth_host =
  has_chrome_runtime :: bool
  getAuthToken_reply :: "(bool \<times> jsstring option) option"
  session_endpoint :: session_reply

datatype auth_error = NetworkError | AuthenticationFailed nat | NoAccessTokenFound

definition cache_token :: "nat \<Rightarrow> jsstring \<Rightarrow> sessionCache \<Rightarrow> sessionCache" where
  "cache_token now t c =
     c\<lparr>token := Some (encryptToken t (tokenEncryptionKey c)),
       expiry := Some (now + 10 * 60 * 1000)\<rparr>"

definition direct_fetch_token ::
  "nat \<Rightarrow> auth_host \<Rightarrow> sessionCache \<Rightarrow> (auth_error + jsstring) \<times> sessionCache" where
  "direct_fetch_token now h c =
     (case session_endpoint h of
        FetchRejected \<Rightarrow> (Inl NetworkError, c)
      | HttpReply ok st tok \<Rightarrow>
          if \<not> ok then (Inl (AuthenticationFailed st), c)
          else if \<not> truthy tok then (Inl NoAccessTokenFound, c)
          else (Inr (the tok), cache_token now (the tok) c))"

text \<open>\<open>getAccessToken\<close> at clock reading \<open>now\<close> (\<open>Date.now()\<close>, milliseconds).\<close>

definition getAccessToken ::
  "nat \<Rightarrow> auth_host \<Rightarrow> sessionCache \<Rightarrow> (auth_error + jsstring) \<times> sessionCache" where
  "getAccessToken now h c =
     (if truthy (token c) \<and> expiry c \<noteq> None \<and> expiry c \<noteq> Some 0 \<and> now < the (expiry c)
      then (Inr (decryptToken (the (token c)) (tokenEncryptionKey c)), c)
      else if has_chrome_runtime h then
        (case getAuthToken_reply h of
           Some (True, Some t) \<Rightarrow>
             if t \<noteq> [] then (Inr t, cache_token now t c) else direct_fetch_token now h c
         | _ \<Rightarrow> direct_fetch_token now h c)
      else direct_fetch_token now h c)"

definition clearCachedToken :: "sessionCache \<Rightarrow> sessionCache" where
  "clearCachedToken c = c\<lparr>token := None, expiry := None\<rparr>"

section \<open>Credential cache: round trip\<close>

lemma length_encryptToken: "length (encryptToken t k) = length t"
  by (simp add: encryptToken_def)

lemma decrypt_encrypt: "decryptToken (encryptToken t k) k = t"
  by (rule nth_equalityI) (simp_all add: decryptToken_def encryptToken_def xor.assoc)

lemma fetched_token_cached:
  assumes miss: "\<not> (truthy (token c) \<and> expiry c \<noteq> None \<and> expiry c \<noteq> Some 0
                    \<and> now < the (expiry c))"
    and got: "getAccessToken now h c = (Inr t, c')"
  shows "t \<noteq> [] \<and> c' = cache_token now t c"
  using miss got
  by (auto simp: getAccessToken_def direct_fetch_token_def truthy_def
           split: if_splits option.splits session_reply.splits bool.splits prod.splits)

text \<open>
  Claim C10. Decrypting an encrypted token with the same non-empty key gives the token
  back. Hence, when a call of \<open>getAccessToken\<close> misses the cache, fetches the token
  \<open>t\<close> and caches it, every later call before the expiry time stored then returns
  exactly \<open>t\<close> and leaves the cache as it is.
\<close>

theorem token_roundtrip_and_cache_hit:
  assumes key: "key \<noteq> []"
  shows "decryptToken (encryptToken tok key) key = tok \<and>
         (tokenEncryptionKey c = key
          \<longrightarrow> \<not> (truthy (token c) \<and> expiry c \<noteq> None \<and> expiry c \<noteq> Some 0
                 \<and> now < the (expiry c))
          \<longrightarrow> getAccessToken now h c = (Inr t, c')
          \<longrightarrow> later < now + 10 * 60 * 1000
          \<longrightarrow> getAccessToken later h' c' = (Inr t, c'))"
proof (intro conjI impI)
  show "decryptToken (encryptToken tok key) key = tok"
    by (rule decrypt_encrypt)
next
  assume k: "tokenEncryptionKey c = key"
    and miss: "\<not> (truthy (token c) \<and> expiry c \<noteq> None \<and> expiry c \<noteq> Some 0
                  \<and> now < the (expiry c))"
    and got: "getAccessToken now h c = (Inr t, c')"
    and before: "later < now + 10 * 60 * 1000"
  from fetched_token_cached [OF miss got]
  have t: "t \<noteq> []" and c': "c' = cache_token now t c" by simp_all
  have enc: "encryptToken t key \<noteq> []"
    using t length_encryptToken [of t key] by (metis length_0_conv)
  show "getAccessToken later h' c' = (Inr t, c')"
    using before enc k
    by (simp add: getAccessToken_def c' cache_token_def truthy_def decrypt_encrypt)
qed

definition demo_key :: jsstring where
  "demo_key = [107, 51]"

definition demo_token :: jsstring where
  "demo_token = [101, 121, 74]"

definition demo_cache :: sessionCache where
  "demo_cache = \<lparr>token = None, expiry = None, tokenEncryptionKey = demo_key\<rparr>"

definition demo_cache' :: sessionCache where
  "demo_cache' = \<lparr>token = Some [14, 74, 33], expiry = Some 601000,
                  tokenEncryptionKey = demo_key\<rparr>"

definition demo_host :: auth_host where
  "demo_host = \<lparr>has_chrome_runtime = True,
                getAuthToken_reply = Some (True, Some demo_token),
                session_endpoint = FetchRejected\<rparr>"

lemma demo_first_call: "getAccessToken 1000 demo_host demo_cache = (Inr demo_token, demo_cache')"
  by (simp add: getAccessToken_def demo_cache_def demo_cache'_def demo_host_def demo_token_def
      demo_key_def truthy_def cache_token_def encryptToken_def keyCodeAt_def upt_rec)

theorem token_roundtrip_and_cache_hit_witness:
  "demo_key \<noteq> [] \<and> tokenEncryptionKey demo_cache = demo_key
   \<and> token demo_cache = None
   \<and> getAccessToken 1000 demo_host demo_cache = (Inr demo_token, demo_cache')
   \<and> (5000::nat) < 1000 + 10 * 60 * 1000
   \<and> decryptToken (encryptToken demo_token demo_key) demo_key = demo_token
   \<and> getAccessToken 5000 demo_host demo_cache' = (Inr demo_token, demo_cache')"
proof -
  have k: "demo_key \<noteq> []" by (simp add: demo_key_def)
  have c: "tokenEncryptionKey demo_cache = demo_key" "token demo_cache = None"
    by (simp_all add: demo_cache_def)
  have miss: "\<not> (truthy (token demo_cache) \<and> expiry demo_cache \<noteq> None
                  \<and> expiry demo_cache \<noteq> Some 0 \<and> 1000 < the (expiry demo_cache))"
    by (simp add: demo_cache_def truthy_def)
  have before: "(5000::nat) < 1000 + 10 * 60 * 1000" by simp
  from token_roundtrip_and_cache_hit [OF k, of demo_token demo_cache 1000 demo_host
      demo_token demo_cache' 5000 demo_host] c miss demo_first_call before
  show ?thesis using k by simp
qed

section \<open>Byte signatures and the binary check (modules/file-utils.js)\<close>

type_synonym byte = "8 word"

text \<open>\<open>bytes[i]\<close> on a \<open>Uint8Array\<close>: \<open>undefined\<close> (here \<open>None\<close>) past the end, and
  \<open>undefined === n\<close> is false for every number.\<close>

definition byte_at :: "byte list \<Rightarrow> nat \<Rightarrow> byte option" where
  "byte_at bytes i = (if i < length bytes then Some (bytes ! i) else None)"

definition is_space_byte :: "byte \<Rightarrow> bool" where
  "is_space_byte b = (b = 0x20 \<or> b = 0x09 \<or> b = 0x0A \<or> b = 0x0D)"

definition detectFileTypeFromBytes :: "byte list \<Rightarrow> string option" where
  "detectFileTypeFromBytes bytes =
     (if length bytes < 4 then None
      else if byte_at bytes 0 = Some 0xFF \<and> byte_at bytes 1 = Some 0xD8
              \<and> byte_at bytes 2 = Some 0xFF
        then Some ''image/jpeg''
      else if byte_at bytes 0 = Some 0x89 \<and> byte_at bytes 1 = Some 0x50
              \<and> byte_at bytes 2 = Some 0x4E \<and> byte_at bytes 3 = Some 0x47
        then Some ''image/png''
      else if byte_at bytes 0 = Some 0x47 \<and> byte_at bytes 1 = Some 0x49
              \<and> byte_at bytes 2 = Some 0x46 \<and> byte_at bytes 3 = Some 0x38
        then Some ''image/gif''
      else if byte_at bytes 0 = Some 0x52 \<and> byte_at bytes 1 = Some 0x49
              \<and> byte_at bytes 2 = Some 0x46 \<and> byte_at bytes 3 = Some 0x46
              \<and> 12 \<le> length bytes \<and> byte_at bytes 8 = Some 0x57
              \<and> byte_at bytes 9 = Some 0x45 \<and> byte_at bytes 10 = Some 0x42
              \<and> byte_at bytes 11 = Some 0x50
        then Some ''image/webp''
      else if byte_at bytes 0 = Some 0x25 \<and> byte_at bytes 1 = Some 0x50
              \<and> byte_at bytes 2 = Some 0x44 \<and> byte_at bytes 3 = Some 0x46
        then Some ''application/pdf''
      else if (byte_at bytes 0 = Some 0x49 \<and> byte_at bytes 1 = Some 0x44
               \<and> byte_at bytes 2 = Some 0x33)
              \<or> (byte_at bytes 0 = Some 0xFF
                  \<and> (byte_at bytes 1 = Some 0xFB \<or> byte_at bytes 1 = Some 0xF3
                      \<or> byte_at bytes 1 = Some 0xF2))
        then Some ''audio/mpeg''
      else if 8 \<le> length bytes \<and> byte_at bytes 4 = Some 0x66
              \<and> byte_at bytes 5 = Some 0x74 \<and> byte_at bytes 6 = Some 0x79
              \<and> byte_at bytes 7 = Some 0x70
        then Some ''video/mp4''
      else if byte_at bytes 0 = Some 0x1A \<and> byte_at bytes 1 = Some 0x45
              \<and> byte_at bytes 2 = Some 0xDF \<and> byte_at bytes 3 = Some 0xA3
        then Some ''video/webm''
      else if byte_at bytes 0 = Some 0x50 \<and> byte_at bytes 1 = Some 0x4B
              \<and> byte_at bytes 2 = Some 0x03 \<and> byte_at bytes 3 = Some 0x04
        then Some ''application/zip''
      else (case find (\<lambda>b. \<not> is_space_byte b) bytes of
              Some b \<Rightarrow> if b = 0x7B \<or> b = 0x5B then Some ''application/json'' else None
            | None \<Rightarrow> None))"

text \<open>A \<open>Blob\<close>: its \<open>type\<close> (the claimed content type, empty when none was given) and
  its bytes.\<close>

record blob =
  blob_type :: string
  blob_bytes :: "byte list"

text \<open>The first test of \<open>isBinaryBlob\<close>: the claimed type names a media format.\<close>

definition claims_media :: "string \<Rightarrow> bool" where
  "claims_media t =
     (t \<noteq> [] \<and> (str_includes t ''image/'' \<or> str_includes t ''audio/''
                \<or> str_includes t ''video/'' \<or> str_includes t ''application/pdf''))"

definition is_text_byte :: "byte \<Rightarrow> bool" where
  "is_text_byte b = ((32 \<le> b \<and> b \<le> 126) \<or> b = 9 \<or> b = 10 \<or> b = 13)"

text \<open>\<open>isBinaryBlob\<close>. The last line of the source compares the floating-point quotient
  \<open>textChars / (textChars + binaryChars)\<close> with \<open>0.9\<close>; both counts are at most 32, where
  the comparison agrees with \<open>10 * textChars < 9 * (textChars + binaryChars)\<close>, and for an
  empty sample the quotient is \<open>NaN\<close> and the comparison false.\<close>

definition isBinaryBlob :: "blob \<Rightarrow> bool" where
  "isBinaryBlob b =
     (if claims_media (blob_type b) then True
      else
        let bytes = take 32 (blob_bytes b) in
        if byte_at bytes 0 = Some 0xFF \<and> byte_at bytes 1 = Some 0xD8
           \<and> byte_at bytes 2 = Some 0xFF then True
        else if byte_at bytes 0 = Some 0x89 \<and> byte_at bytes 1 = Some 0x50
                \<and> byte_at bytes 2 = Some 0x4E \<and> byte_at bytes 3 = Some 0x47 then True
        else if byte_at bytes 0 = Some 0x47 \<and> byte_at bytes 1 = Some 0x49
                \<and> byte_at bytes 2 = Some 0x46 \<and> byte_at bytes 3 = Some 0x38 then True
        else if byte_at bytes 0 = Some 0x7B then False
        else if byte_at bytes 0 = Some 0x5B then False
        else
          let textChars = length (filter is_text_byte bytes);
              binaryChars = length (filter (\<lambda>x. \<not> is_text_byte x) bytes)
          in textChars + binaryChars \<noteq> 0
             \<and> 10 * textChars < 9 * (textChars + binaryChars))"

text \<open>What a fetch attempt of \<open>MediaFetcher\<close> makes of a received body (unnamed/part_002).
  \<open>Binary t\<close> is a success with content type \<open>t\<close>, \<open>Redirect u\<close> the result
  \<open>{redirectUrl: u}\<close>, \<open>Invalid\<close> the result \<open>null\<close>.\<close>

datatype validation = Binary string | Redirect string | Invalid

text \<open>The body of \<open>fetchViaBackgroundScript\<close> after a successful reply, whose data URL
  names the content type \<open>mimeType\<close>. \<open>redirect_of\<close> stands for
  \<open>tryParseJson\<close> followed by \<open>parseJsonForFileUrl\<close>: it reads the body's text only and
  gives the URL found, if the text is JSON and holds one.\<close>

definition validate_background ::
  "(byte list \<Rightarrow> string option) \<Rightarrow> string \<Rightarrow> byte list \<Rightarrow> validation" where
  "validate_background redirect_of mimeType bytes =
     (if \<not> isBinaryBlob \<lparr>blob_type = mimeType, blob_bytes = bytes\<rparr> then
        (case redirect_of bytes of Some u \<Rightarrow> Redirect u | None \<Rightarrow> Invalid)
      else
        (case detectFileTypeFromBytes (take 12 bytes) of
           Some detectedType \<Rightarrow> Binary detectedType
         | None \<Rightarrow> Binary mimeType))"

text \<open>The body of \<open>fetchDirectly\<close> after an \<open>ok\<close> response: the temporary blob has no
  type, and the \<open>Content-Type\<close> header or a default for the reference's media type
  stands in when no signature is recognised.\<close>

definition validate_direct ::
  "(byte list \<Rightarrow> string option) \<Rightarrow> string option \<Rightarrow> string option \<Rightarrow> byte list
   \<Rightarrow> validation" where
  "validate_direct redirect_of contentTypeHeader mediaType bytes =
     (if \<not> isBinaryBlob \<lparr>blob_type = [], blob_bytes = bytes\<rparr> then
        (case redirect_of bytes of Some u \<Rightarrow> Redirect u | None \<Rightarrow> Invalid)
      else
        let contentType = js_or (detectFileTypeFromBytes (take 12 bytes)) contentTypeHeader
        in if \<not> truthy contentType \<or> contentType = Some ''application/octet-stream''
              \<or> contentType = Some ''application/json''
           then (if mediaType = Some ''image'' then Binary ''image/jpeg''
                 else if mediaType = Some ''audio'' then Binary ''audio/mpeg''
                 else if mediaType = Some ''video'' then Binary ''video/mp4''
                 else Binary ''application/octet-stream'')
           else Binary (the contentType))"

section \<open>Byte signatures: PNG and the claimed content type\<close>

lemma png_prefix_bytes:
  assumes "take 4 bytes = [0x89, 0x50, 0x4E, 0x47 :: byte]"
  shows "4 \<le> length bytes" "bytes \<noteq> []" "bytes ! 0 = 0x89" "bytes ! 1 = 0x50"
    "bytes ! 2 = 0x4E" "bytes ! 3 = 0x47"
proof -
  have len: "length (take 4 bytes) = 4" using assms by simp
  then show "4 \<le> length bytes" by simp
  then show "bytes \<noteq> []" by auto
  have nth: "\<And>i. i < 4 \<Longrightarrow> bytes ! i = [0x89, 0x50, 0x4E, 0x47 :: byte] ! i"
    using assms by (metis nth_take)
  show "bytes ! 0 = 0x89" using nth [of 0] by simp
  show "bytes ! 1 = 0x50" using nth [of 1] by simp
  show "bytes ! 2 = 0x4E" using nth [of 2] by simp
  show "bytes ! 3 = 0x47" using nth [of 3] by simp
qed

lemma detect_png:
  assumes "take 4 bytes = [0x89, 0x50, 0x4E, 0x47 :: byte]"
  shows "detectFileTypeFromBytes bytes = Some ''image/png''"
  using png_prefix_bytes [OF assms]
  by (simp add: detectFileTypeFromBytes_def byte_at_def)

lemma png_take:
  assumes "take 4 bytes = [0x89, 0x50, 0x4E, 0x47 :: byte]" and "4 \<le> n"
  shows "take 4 (take n bytes) = [0x89, 0x50, 0x4E, 0x47]"
  using assms by (simp add: min_def)

lemma isBinary_png:
  assumes "take 4 bytes = [0x89, 0x50, 0x4E, 0x47 :: byte]"
  shows "isBinaryBlob \<lparr>blob_type = t, blob_bytes = bytes\<rparr>"
proof -
  have "take 4 (take 32 bytes) = [0x89, 0x50, 0x4E, 0x47]"
    using assms by (rule png_take) simp
  from png_prefix_bytes [OF this] show ?thesis
    by (simp add: isBinaryBlob_def byte_at_def Let_def)
qed

text \<open>
  Claim C6. A body whose first four bytes are 89 50 4E 47 is classified as
  \<open>image/png\<close> by the byte-signature classifier, and both fetch paths judge it binary
  and report the content type \<open>image/png\<close>, whatever content type was claimed (the data
  URL's type, the \<open>Content-Type\<close> header) and whatever the JSON scan would find.
\<close>

theorem png_magic_is_binary_png:
  assumes "take 4 bytes = [0x89, 0x50, 0x4E, 0x47 :: byte]"
  shows "detectFileTypeFromBytes bytes = Some ''image/png''
         \<and> isBinaryBlob \<lparr>blob_type = claimed, blob_bytes = bytes\<rparr>
         \<and> validate_background redirect_of claimed bytes = Binary ''image/png''
         \<and> validate_direct redirect_of header mediaType bytes = Binary ''image/png''"
proof -
  have d12: "detectFileTypeFromBytes (take 12 bytes) = Some ''image/png''"
    by (rule detect_png, rule png_take [OF assms]) simp
  have bin: "\<And>t. isBinaryBlob \<lparr>blob_type = t, blob_bytes = bytes\<rparr>"
    by (rule isBinary_png [OF assms])
  show ?thesis
    using d12 bin detect_png [OF assms]
    by (simp add: validate_background_def validate_direct_def js_or_def truthy_def)
qed

definition png_sample :: "byte list" where
  "png_sample = [0x89, 0x50, 0x4E, 0x47, 0x0D, 0x0A, 0x1A, 0x0A]"

theorem png_magic_is_binary_png_witness:
  "take 4 png_sample = [0x89, 0x50, 0x4E, 0x47]
   \<and> detectFileTypeFromBytes png_sample = Some ''image/png''
   \<and> isBinaryBlob \<lparr>blob_type = ''application/json'', blob_bytes = png_sample\<rparr>
   \<and> validate_background (\<lambda>b. Some ''https://example.org/x'') ''application/json'' png_sample
       = Binary ''image/png''
   \<and> validate_direct (\<lambda>b. None) (Some ''application/json'') (Some ''image'') png_sample
       = Binary ''image/png''"
proof -
  have h: "take 4 png_sample = [0x89, 0x50, 0x4E, 0x47]"
    by (simp add: png_sample_def)
  from png_magic_is_binary_png [OF h] h show ?thesis by simp
qed









section \<open>Candidate URLs (MediaUrlGenerator, in modules/media-downloader.js)\<close>

text \<open>The replacement
  \<open>s.replace(/([0-9a-f]{8})([0-9a-f]{4})([0-9a-f]{4})([0-9a-f]{4})([0-9a-f]{12})/, '$1-$2-$3-$4-$5')\<close>:
  the leftmost run of 32 lower-case hexadecimal digits is cut into groups of 8, 4, 4, 4
  and 12 joined by hyphens; a string with no such run is unchanged.\<close>

definition is_hex_digit :: "char \<Rightarrow> bool" where
  "is_hex_digit c =
     (let n = of_char c :: nat in (48 \<le> n \<and> n \<le> 57) \<or> (97 \<le> n \<and> n \<le> 102))"

fun hyphenate_uuid :: "string \<Rightarrow> string" where
  "hyphenate_uuid [] = []"
| "hyphenate_uuid (c # cs) =
     (let s = c # cs in
      if 32 \<le> length s \<and> list_all is_hex_digit (take 32 s)
      then take 8 s @ ''-'' @ take 4 (drop 8 s) @ ''-'' @ take 4 (drop 12 s) @ ''-''
           @ take 4 (drop 16 s) @ ''-'' @ take 12 (drop 20 s) @ drop 32 s
      else c # hyphenate_uuid cs)"

definition uuidWithHyphens :: "string \<Rightarrow> string" where
  "uuidWithHyphens s = (if str_includes s ''-'' then s else hyphenate_uuid s)"

text \<open>\<open>ExportConfig.sedimentRegions\<close> of the configuration module (unnamed/part_002) and
  the list \<open>generateAlternativeUrls\<close> falls back to when the configuration has none.\<close>

definition config_sedimentRegions :: "string list" where
  "config_sedimentRegions =
     [''westus2'', ''westus3'', ''centralus'', ''eastus'', ''eastus2'', ''northcentralus'',
      ''southcentralus'', ''northeurope'', ''westeurope'', ''australiaeast'',
      ''southeastasia'', ''eastasia'', ''centralindia'']"

definition generator_default_regions :: "string list" where
  "generator_default_regions =
     [''westus2'', ''centralus'', ''westus3'', ''eastus2'', ''eastus'', ''northcentralus'',
      ''southcentralus'', ''northeurope'', ''westeurope'', ''australiaeast'',
      ''southeastasia'', ''eastasia'']"

definition sediment_url :: "string \<Rightarrow> string \<Rightarrow> string" where
  "sediment_url uuid region =
     ''https://sdmntpr'' @ region @ ''.oaiusercontent.com/files/'' @ uuid @ ''/raw''"

definition isDalleImageNew :: "string \<Rightarrow> bool" where
  "isDalleImageNew fileId =
     (str_includes fileId ''sediment://file_'' \<or> startsWith fileId ''file_'')"

definition isDalleImageOld :: "string \<Rightarrow> bool" where
  "isDalleImageOld fileId =
     (str_includes fileId ''sediment://'' \<and> \<not> str_includes fileId ''sediment://file_'')"

definition isUserUpload :: "string \<Rightarrow> bool" where
  "isUserUpload fileId =
     (str_includes fileId ''file-service://'' \<or> str_includes fileId ''file-'')"

text \<open>\<open>cleanId\<close>: \<open>fileId.split(scheme)[1]\<close> when the identifier contains the scheme
  (then the second piece exists, see \<open>split_second_defined\<close>), else the identifier.\<close>

definition strip_scheme :: "string \<Rightarrow> string \<Rightarrow> string" where
  "strip_scheme fileId scheme =
     (if str_includes fileId scheme then the (split_second fileId scheme) else fileId)"

text \<open>\<open>generateAlternativeUrls(fileId, domain)\<close>; \<open>cfg\<close> is
  \<open>window.ExportConfig.sedimentRegions\<close>, \<open>None\<close> when the configuration or the
  property is absent.\<close>

definition generateAlternativeUrls ::
  "string list option \<Rightarrow> string \<Rightarrow> string \<Rightarrow> string list" where
  "generateAlternativeUrls cfg fileId domain =
     (let baseUrl = ''https://'' @ domain in
      if isDalleImageNew fileId then
        let cleanId = strip_scheme fileId ''sediment://'';
            hasFilePrefix = startsWith cleanId ''file_'';
            withoutFilePrefix = (if hasFilePrefix then drop 5 cleanId else cleanId);
            withFilePrefix = (if hasFilePrefix then cleanId else ''file_'' @ cleanId);
            fileUuid = uuidWithHyphens withoutFilePrefix;
            regions = (case cfg of Some rs \<Rightarrow> rs | None \<Rightarrow> generator_default_regions);
            urls = map (sediment_url fileUuid) regions;
            urls = urls @
              [baseUrl @ ''/backend-api/sediment/content/'' @ withFilePrefix,
               baseUrl @ ''/backend-api/sediment/content/'' @ withoutFilePrefix,
               baseUrl @ ''/backend-api/sediment/files/'' @ withFilePrefix,
               baseUrl @ ''/backend-api/sediment/files/'' @ withoutFilePrefix];
            urls = urls @
              [''https://files.oaiusercontent.com/file/'' @ fileUuid,
               ''https://files.oaiusercontent.com/file/'' @ withFilePrefix]
        in urls
      else if isDalleImageOld fileId then
        let cleanId = strip_scheme fileId ''sediment://'' in
        [baseUrl @ ''/backend-api/sediment/content/'' @ cleanId,
         baseUrl @ ''/backend-api/sediment/files/'' @ cleanId,
         ''https://files.oaiusercontent.com/file/'' @ cleanId,
         ''https://cdn.oaistatic.com/images/'' @ cleanId @ ''.png'',
         baseUrl @ ''/backend-api/images/generations/'' @ cleanId,
         baseUrl @ ''/backend-api/images/'' @ cleanId @ ''/content'']
      else if isUserUpload fileId then
        let cleanId = strip_scheme fileId ''file-service://'' in
        [baseUrl @ ''/backend-api/files/content/'' @ cleanId @ ''?format=binary'',
         baseUrl @ ''/backend-api/files/download/content/'' @ cleanId,
         ''https://files.oaiusercontent.com/file/'' @ cleanId,
         ''https://files.oaiusercontent.com/file-'' @ cleanId]
      else
        let cleanId = strip_scheme fileId ''://'' in
        [baseUrl @ ''/backend-api/files/content/'' @ cleanId @ ''?format=binary'',
         ''https://files.oaiusercontent.com/file/'' @ cleanId])"

text \<open>The identifier parts the first branch computes, named for the statements below.\<close>

definition withoutFilePrefix_of :: "string \<Rightarrow> string" where
  "withoutFilePrefix_of fileId =
     (let cleanId = strip_scheme fileId ''sediment://''
      in if startsWith cleanId ''file_'' then drop 5 cleanId else cleanId)"

text \<open>An API endpoint on the given domain or a CDN guess: what comes after the
  storage-mirror tier.\<close>

definition api_or_cdn :: "string \<Rightarrow> string \<Rightarrow> bool" where
  "api_or_cdn domain u =
     (startsWith u (''https://'' @ domain @ ''/backend-api/'')
      \<or> startsWith u ''https://files.oaiusercontent.com/''
      \<or> startsWith u ''https://cdn.oaistatic.com/'')"

text \<open>The regions in use: the configured list, or the fallback when there is none (an
  empty configured list is truthy in JavaScript and is used as it is).\<close>

definition regions_in_use :: "string list option \<Rightarrow> string list" where
  "regions_in_use cfg = (case cfg of Some rs \<Rightarrow> rs | None \<Rightarrow> generator_default_regions)"

section \<open>Candidate URLs: where the storage-mirror tier stands\<close>

lemma split_acc_nonempty: "split_acc sep acc s \<noteq> []"
  by (induction s arbitrary: acc) auto

lemma split_acc_two:
  "sep \<noteq> [] \<Longrightarrow> str_includes s sep \<Longrightarrow> 2 \<le> length (split_acc sep acc s)"
proof (induction s arbitrary: acc)
  case Nil
  then show ?case by simp
next
  case (Cons c cs)
  show ?case
  proof (cases "startsWith (c # cs) sep")
    case True
    have "split_acc sep [] (drop (length sep - 1) cs) \<noteq> []"
      by (rule split_acc_nonempty)
    then have "1 \<le> length (split_acc sep [] (drop (length sep - 1) cs))"
      by (cases "split_acc sep [] (drop (length sep - 1) cs)") simp_all
    with True Cons.prems show ?thesis by simp
  next
    case False
    with Cons.prems have "str_includes cs sep" by simp
    from Cons.IH [OF Cons.prems(1) this] False show ?thesis by simp
  qed
qed

lemma split_second_defined:
  assumes "sep \<noteq> []" and "str_includes s sep"
  shows "\<exists>b. split_second s sep = Some b"
proof -
  from split_acc_two [OF assms, of "[]"] have "2 \<le> length (js_split s sep)"
    by (simp add: js_split_def)
  then obtain a b rest where "js_split s sep = a # b # rest"
    by (cases "js_split s sep"; cases "tl (js_split s sep)") auto
  then show ?thesis by (simp add: split_second_def)
qed

text \<open>
  Claim C1 as stated fails: only the branch for the new generated-image format builds
  storage-mirror URLs. A user-upload identifier gets two API endpoints and two CDN
  guesses, an old-format sediment identifier six such candidates, an unknown one two;
  none of these lists begins with (or contains) a storage-mirror URL.
\<close>

theorem no_mirror_tier_for_other_categories:
  "generateAlternativeUrls (Some config_sedimentRegions) ''file-service://file-abc123''
       ''chat.openai.com''
     = [''https://chat.openai.com/backend-api/files/content/file-abc123?format=binary'',
        ''https://chat.openai.com/backend-api/files/download/content/file-abc123'',
        ''https://files.oaiusercontent.com/file/file-abc123'',
        ''https://files.oaiusercontent.com/file-file-abc123'']
   \<and> generateAlternativeUrls (Some config_sedimentRegions) ''sediment://abc123''
       ''chat.openai.com''
     = [''https://chat.openai.com/backend-api/sediment/content/abc123'',
        ''https://chat.openai.com/backend-api/sediment/files/abc123'',
        ''https://files.oaiusercontent.com/file/abc123'',
        ''https://cdn.oaistatic.com/images/abc123.png'',
        ''https://chat.openai.com/backend-api/images/generations/abc123'',
        ''https://chat.openai.com/backend-api/images/abc123/content'']
   \<and> generateAlternativeUrls (Some config_sedimentRegions) ''canvas42'' ''chat.openai.com''
     = [''https://chat.openai.com/backend-api/files/content/canvas42?format=binary'',
        ''https://files.oaiusercontent.com/file/canvas42'']"
  by (simp add: generateAlternativeUrls_def isDalleImageNew_def isDalleImageOld_def
      isUserUpload_def strip_scheme_def split_second_def js_split_def startsWith_def Let_def)

lemma startsWith_prefix: "startsWith (p @ s) p"
  by (simp add: startsWith_def)

lemma api_url: "api_or_cdn domain (''https://'' @ domain @ ''/backend-api/'' @ rest)"
  using startsWith_prefix [of "''https://'' @ domain @ ''/backend-api/''" rest]
  by (simp add: api_or_cdn_def)

lemma files_url: "api_or_cdn domain (''https://files.oaiusercontent.com/'' @ rest)"
  using startsWith_prefix [of "''https://files.oaiusercontent.com/''" rest]
  by (simp add: api_or_cdn_def)

lemma cdn_url: "api_or_cdn domain (''https://cdn.oaistatic.com/'' @ rest)"
  using startsWith_prefix [of "''https://cdn.oaistatic.com/''" rest]
  by (simp add: api_or_cdn_def)

lemma new_shape:
  assumes "isDalleImageNew fileId"
  shows "\<exists>a b c d e f. generateAlternativeUrls cfg fileId domain =
     map (sediment_url (uuidWithHyphens (withoutFilePrefix_of fileId))) (regions_in_use cfg)
     @ [''https://'' @ domain @ ''/backend-api/'' @ a, ''https://'' @ domain @ ''/backend-api/'' @ b,
        ''https://'' @ domain @ ''/backend-api/'' @ c, ''https://'' @ domain @ ''/backend-api/'' @ d,
        ''https://files.oaiusercontent.com/'' @ e, ''https://files.oaiusercontent.com/'' @ f]"
  using assms
  by (simp add: generateAlternativeUrls_def Let_def withoutFilePrefix_of_def regions_in_use_def)

lemma other_shape:
  assumes "\<not> isDalleImageNew fileId"
  shows "\<exists>a b c d e f.
     generateAlternativeUrls cfg fileId domain =
       [''https://'' @ domain @ ''/backend-api/'' @ a, ''https://'' @ domain @ ''/backend-api/'' @ b,
        ''https://files.oaiusercontent.com/'' @ c, ''https://cdn.oaistatic.com/'' @ d,
        ''https://'' @ domain @ ''/backend-api/'' @ e, ''https://'' @ domain @ ''/backend-api/'' @ f]
     \<or> generateAlternativeUrls cfg fileId domain =
       [''https://'' @ domain @ ''/backend-api/'' @ a, ''https://'' @ domain @ ''/backend-api/'' @ b,
        ''https://files.oaiusercontent.com/'' @ c, ''https://files.oaiusercontent.com/'' @ d]
     \<or> generateAlternativeUrls cfg fileId domain =
       [''https://'' @ domain @ ''/backend-api/'' @ a, ''https://files.oaiusercontent.com/'' @ c]"
  using assms
  by (simp add: generateAlternativeUrls_def Let_def)

text \<open>
  Claim C1, amended. For an identifier in the new generated-image format (it contains
  \<open>sediment://file_\<close> or starts with \<open>file_\<close>) the list begins with the storage-mirror
  URLs, exactly one per region in use and in the regions' order, and the six candidates
  after them are API endpoints of the domain and CDN guesses. For every other identifier
  (old-format sediment, user upload, unknown) the list has at most six candidates, all of
  them API endpoints of the domain or CDN guesses.
\<close>

theorem mirror_tier_first_for_new_generated_images:
  "(isDalleImageNew fileId \<longrightarrow>
      take (length (regions_in_use cfg)) (generateAlternativeUrls cfg fileId domain)
        = map (sediment_url (uuidWithHyphens (withoutFilePrefix_of fileId))) (regions_in_use cfg)
      \<and> length (generateAlternativeUrls cfg fileId domain) = length (regions_in_use cfg) + 6
      \<and> list_all (api_or_cdn domain)
          (drop (length (regions_in_use cfg)) (generateAlternativeUrls cfg fileId domain)))
   \<and> (\<not> isDalleImageNew fileId \<longrightarrow>
        list_all (api_or_cdn domain) (generateAlternativeUrls cfg fileId domain)
        \<and> length (generateAlternativeUrls cfg fileId domain) \<le> 6)"
proof (intro conjI impI)
  assume new: "isDalleImageNew fileId"
  from new_shape [OF new, of cfg domain] obtain a b c d e f where
    u: "generateAlternativeUrls cfg fileId domain =
     map (sediment_url (uuidWithHyphens (withoutFilePrefix_of fileId))) (regions_in_use cfg)
     @ [''https://'' @ domain @ ''/backend-api/'' @ a, ''https://'' @ domain @ ''/backend-api/'' @ b,
        ''https://'' @ domain @ ''/backend-api/'' @ c, ''https://'' @ domain @ ''/backend-api/'' @ d,
        ''https://files.oaiusercontent.com/'' @ e, ''https://files.oaiusercontent.com/'' @ f]"
    by blast
  show "take (length (regions_in_use cfg)) (generateAlternativeUrls cfg fileId domain)
        = map (sediment_url (uuidWithHyphens (withoutFilePrefix_of fileId))) (regions_in_use cfg)"
    unfolding u by simp
  show "length (generateAlternativeUrls cfg fileId domain) = length (regions_in_use cfg) + 6"
    unfolding u by simp
  show "list_all (api_or_cdn domain)
          (drop (length (regions_in_use cfg)) (generateAlternativeUrls cfg fileId domain))"
    unfolding u using api_url files_url by (simp del: append.simps append_assoc)
next
  assume other: "\<not> isDalleImageNew fileId"
  from other_shape [OF other, of cfg domain] obtain a b c d e f where
   u: "generateAlternativeUrls cfg fileId domain =
       [''https://'' @ domain @ ''/backend-api/'' @ a, ''https://'' @ domain @ ''/backend-api/'' @ b,
        ''https://files.oaiusercontent.com/'' @ c, ''https://cdn.oaistatic.com/'' @ d,
        ''https://'' @ domain @ ''/backend-api/'' @ e, ''https://'' @ domain @ ''/backend-api/'' @ f]
     \<or> generateAlternativeUrls cfg fileId domain =
       [''https://'' @ domain @ ''/backend-api/'' @ a, ''https://'' @ domain @ ''/backend-api/'' @ b,
        ''https://files.oaiusercontent.com/'' @ c, ''https://files.oaiusercontent.com/'' @ d]
     \<or> generateAlternativeUrls cfg fileId domain =
       [''https://'' @ domain @ ''/backend-api/'' @ a, ''https://files.oaiusercontent.com/'' @ c]"
    by blast
  show "list_all (api_or_cdn domain) (generateAlternativeUrls cfg fileId domain)"
    using u api_url files_url cdn_url by (elim disjE) (simp_all del: append.simps append_assoc)
  show "length (generateAlternativeUrls cfg fileId domain) \<le> 6"
    using u by (elim disjE) simp_all
qed

theorem mirror_tier_first_for_new_generated_images_witness:
  "isDalleImageNew ''sediment://file_abcd1234''
   \<and> take 13 (generateAlternativeUrls (Some config_sedimentRegions)
         ''sediment://file_abcd1234'' ''chat.openai.com'')
       = map (sediment_url ''abcd1234'') config_sedimentRegions
   \<and> length (generateAlternativeUrls (Some config_sedimentRegions)
         ''sediment://file_abcd1234'' ''chat.openai.com'') = 19
   \<and> list_all (api_or_cdn ''chat.openai.com'')
        (drop 13 (generateAlternativeUrls (Some config_sedimentRegions)
           ''sediment://file_abcd1234'' ''chat.openai.com''))
   \<and> \<not> isDalleImageNew ''file-service://file-abc123''
   \<and> list_all (api_or_cdn ''chat.openai.com'')
        (generateAlternativeUrls (Some config_sedimentRegions)
           ''file-service://file-abc123'' ''chat.openai.com'')"
proof -
  have new: "isDalleImageNew ''sediment://file_abcd1234''"
    by (simp add: isDalleImageNew_def startsWith_def)
  have other: "\<not> isDalleImageNew ''file-service://file-abc123''"
    by (simp add: isDalleImageNew_def startsWith_def)
  have n: "length config_sedimentRegions = 13"
    "regions_in_use (Some config_sedimentRegions) = config_sedimentRegions"
    by (simp_all add: regions_in_use_def config_sedimentRegions_def)
  have id: "uuidWithHyphens (withoutFilePrefix_of ''sediment://file_abcd1234'') = ''abcd1234''"
    by (simp add: uuidWithHyphens_def withoutFilePrefix_of_def strip_scheme_def
        split_second_def js_split_def startsWith_def)
  from mirror_tier_first_for_new_generated_images
         [of "''sediment://file_abcd1234''" "Some config_sedimentRegions" "''chat.openai.com''"]
       mirror_tier_first_for_new_generated_images
         [of "''file-service://file-abc123''" "Some config_sedimentRegions" "''chat.openai.com''"]
       new other
  show ?thesis by (simp add: n id)
qed

section \<open>File names (modules/file-utils.js)\<close>

text \<open>A media reference, with the properties the modelled functions read. An absent
  property (\<open>undefined\<close> or \<open>null\<close>) is \<open>None\<close>. \<open>dalle\<close> is \<open>metadata.dalle\<close> with
  its \<open>prompt\<close> and \<open>gen_id\<close>.\<close>

record dalle_metadata =
  prompt :: "string option"
  gen_id :: "string option"

record mediaRef =
  mtype :: "string option"
  assetPointer :: "string option"
  fileId :: "string option"
  canvasId :: "string option"
  renderedUrl :: "string option"
  title :: "string option"
  customName :: "string option"
  filename :: "string option"
  format :: "string option"
  mime_type :: "string option"
  dalle :: "dalle_metadata option"

text \<open>\<open>ExportConfig.fileTypes\<close> and \<open>ExportConfig.defaultFileTypes\<close> (unnamed/part_002),
  each key with its \<open>ext\<close>.\<close>

definition fileTypes :: "(string \<times> string) list" where
  "fileTypes =
     [(''image/png'', ''png''), (''image/jpeg'', ''jpg''), (''image/gif'', ''gif''),
      (''image/webp'', ''webp''), (''image/bmp'', ''bmp''), (''image/tiff'', ''tiff''),
      (''image/svg+xml'', ''svg''),
      (''audio/mpeg'', ''mp3''), (''audio/mp3'', ''mp3''), (''audio/ogg'', ''ogg''),
      (''audio/wav'', ''wav''), (''audio/x-wav'', ''wav''), (''audio/x-m4a'', ''m4a''),
      (''audio/aac'', ''aac''), (''audio/flac'', ''flac''),
      (''video/mp4'', ''mp4''), (''video/webm'', ''webm''), (''video/quicktime'', ''mov''),
      (''video/x-msvideo'', ''avi''), (''video/x-matroska'', ''mkv''),
      (''application/json'', ''json''), (''application/pdf'', ''pdf''),
      (''application/zip'', ''zip''), (''application/x-zip-compressed'', ''zip''),
      (''application/msword'', ''doc''),
      (''application/vnd.openxmlformats-officedocument.wordprocessingml.document'', ''docx''),
      (''application/vnd.ms-excel'', ''xls''),
      (''application/vnd.openxmlformats-officedocument.spreadsheetml.sheet'', ''xlsx''),
      (''application/vnd.ms-powerpoint'', ''ppt''),
      (''application/vnd.openxmlformats-officedocument.presentationml.presentation'', ''pptx''),
      (''text/plain'', ''txt''), (''text/html'', ''html''), (''text/css'', ''css''),
      (''text/javascript'', ''js''), (''text/csv'', ''csv''), (''text/xml'', ''xml''),
      (''application/xml'', ''xml''), (''application/javascript'', ''js'')]"

definition defaultFileTypes :: "(string \<times> string) list" where
  "defaultFileTypes =
     [(''image'', ''jpg''), (''audio'', ''mp3''), (''video'', ''mp4''), (''file'', ''bin''),
      (''canvas'', ''json'')]"

text \<open>The class \<open>[A-Za-z0-9-]\<close> and the match of \<open>/[\.\/]([A-Za-z0-9-]+)$/i\<close>: its group
  is what follows the last dot or slash, when that is not empty and all of the class.\<close>

definition is_alnum_hyphen :: "char \<Rightarrow> bool" where
  "is_alnum_hyphen c =
     (let n = of_char c :: nat
      in (97 \<le> n \<and> n \<le> 122) \<or> (65 \<le> n \<and> n \<le> 90) \<or> (48 \<le> n \<and> n \<le> 57)
         \<or> c = CHR ''-'')"

definition mime_suffix :: "string \<Rightarrow> string option" where
  "mime_suffix m =
     (let suffix = rev (takeWhile (\<lambda>c. c \<noteq> CHR ''.'' \<and> c \<noteq> CHR ''/'') (rev m))
      in if length suffix < length m \<and> suffix \<noteq> [] \<and> list_all is_alnum_hyphen suffix
         then Some suffix else None)"

text \<open>\<open>getFileExtension(mimeType)\<close> with the default fallback \<open>'bin'\<close>. The table is
  read at its own keys (a property name inherited from \<open>Object.prototype\<close>, such as
  \<open>constructor\<close>, is not a MIME type any caller passes).\<close>

definition getFileExtension :: "string \<Rightarrow> string" where
  "getFileExtension mimeType =
     (case map_of fileTypes mimeType of
        Some ext \<Rightarrow> ext
      | None \<Rightarrow>
          (case mime_suffix mimeType of
             Some g \<Rightarrow> if 1 < length g \<and> length g < 10 then toLowerCase g else ''bin''
           | None \<Rightarrow> ''bin''))"

definition getAppropriateFileExtension ::
  "string option \<Rightarrow> string option \<Rightarrow> string option \<Rightarrow> string option \<Rightarrow> string" where
  "getAppropriateFileExtension mediaType mimeType fname fmt =
     (if truthy fmt \<and> 0 < length (the fmt) \<and> length (the fmt) < 5
        then toLowerCase (the fmt)
      else if truthy fname \<and> str_includes (the fname) ''.''
              \<and> 0 < length (toLowerCase (split_pop (the fname) ''.''))
              \<and> length (toLowerCase (split_pop (the fname) ''.'')) < 5
        then toLowerCase (split_pop (the fname) ''.'')
      else if mediaType = Some ''image'' then
        (if truthy mimeType
            \<and> (str_includes (the mimeType) ''jpeg'' \<or> str_includes (the mimeType) ''jpg'')
         then ''jpg'' else ''png'')
      else if truthy mimeType \<and> mimeType \<noteq> Some ''application/octet-stream''
              \<and> mimeType \<noteq> Some ''application/json''
        then getFileExtension (the mimeType)
      else
        (case (case mediaType of None \<Rightarrow> None | Some t \<Rightarrow> map_of defaultFileTypes t) of
           Some ext \<Rightarrow> ext
         | None \<Rightarrow> ''bin''))"

text \<open>\<open>xs.join(sep)\<close>.\<close>

fun join :: "'a list list \<Rightarrow> 'a list \<Rightarrow> 'a list" where
  "join [] sep = []"
| "join [x] sep = x"
| "join (x # y # ys) sep = x @ sep @ join (y # ys) sep"

text \<open>A name without its extension:
  \<open>name.includes('.') ? name.substring(0, name.lastIndexOf('.')) : name\<close>.\<close>

definition without_extension :: "string \<Rightarrow> string" where
  "without_extension name =
     (case lastIndexOf name (CHR ''.'') of Some i \<Rightarrow> take i name | None \<Rightarrow> name)"

text \<open>The test that opens \<open>createSuitableFilename\<close> (and \<open>downloadMedia\<close>):
  \<open>mediaRef.assetPointer && mediaRef.assetPointer.includes('sediment://')\<close>.\<close>

definition is_sediment_ref :: "mediaRef \<Rightarrow> bool" where
  "is_sediment_ref m =
     (truthy (assetPointer m) \<and> str_includes (the (assetPointer m)) ''sediment://'')"

text \<open>\<open>id.includes('://') ? id.split('://').pop() : id\<close>.\<close>

definition clean_scheme :: "string \<Rightarrow> string" where
  "clean_scheme i = (if str_includes i ''://'' then split_pop i ''://'' else i)"

text \<open>\<open>mediaRef.fileId || mediaRef.assetPointer || mediaRef.canvasId || dflt\<close>.\<close>

definition any_file_id :: "mediaRef \<Rightarrow> string \<Rightarrow> string" where
  "any_file_id m dflt =
     (if truthy (fileId m) then the (fileId m)
      else if truthy (assetPointer m) then the (assetPointer m)
      else if truthy (canvasId m) then the (canvasId m)
      else dflt)"

definition createSuitableFilename :: "mediaRef \<Rightarrow> string option \<Rightarrow> string" where
  "createSuitableFilename m contentType =
     (if is_sediment_ref m then
        let fid = (if truthy (fileId m) then the (fileId m)
                   else replace_first (the (assetPointer m)) ''sediment://'' []);
            baseName = (if truthy (customName m) then the (customName m)
                        else ''dalle_'' @ split_pop fid ''/'');
            baseName = (if 200 < length baseName then take 200 baseName else baseName)
        in baseName @ ''.png''
      else
        let ext = getAppropriateFileExtension (mtype m) (js_or contentType (mime_type m))
                    (filename m) (format m)
        in if ext = ''png'' then
             let cleanId = clean_scheme (any_file_id m ''unknown'');
                 originalFilename =
                   (if truthy (filename m) then without_extension (the (filename m))
                    else if truthy (customName m) then the (customName m)
                    else if truthy (title m) then toLowerCase (sanitize (the (title m)))
                    else ''image'');
                 safeOriginalFilename = sanitize originalFilename;
                 fileIdWithPrefix =
                   (if startsWith cleanId ''file-'' \<or> startsWith cleanId ''file_''
                    then cleanId else ''file-'' @ cleanId)
             in fileIdWithPrefix @ ''-'' @ safeOriginalFilename @ ''.'' @ ext
           else
             let components = (if truthy (title m)
                               then [toLowerCase (sanitize (the (title m)))] else []);
                 components =
                   (if truthy (customName m) then components @ [the (customName m)]
                    else if truthy (filename m)
                      then components @ [without_extension (the (filename m))]
                    else components);
                 components =
                   (if components = [] then
                      [(case mtype m of Some t \<Rightarrow> t | None \<Rightarrow> ''undefined'')
                       @ ''_'' @ clean_scheme (any_file_id m ''file'')]
                    else components);
                 baseName = join components ''_'';
                 safeBaseName = (if 50 < length baseName then take 50 baseName else baseName)
             in safeBaseName @ ''.'' @ ext)"

text \<open>The orchestrator's preparation of one reference before any download
  (\<open>downloadAllMedia\<close>, "Prepare and enhance media references"): a name from the DALL-E
  prompt or generation id, else the sanitized, lower-cased title becomes \<open>customName\<close>
  when the reference has none.\<close>

definition is_word_char :: "char \<Rightarrow> bool" where
  "is_word_char c =
     (let n = of_char c :: nat
      in (97 \<le> n \<and> n \<le> 122) \<or> (65 \<le> n \<and> n \<le> 90) \<or> (48 \<le> n \<and> n \<le> 57)
         \<or> c = CHR ''_'')"

definition shortPrompt :: "string \<Rightarrow> string" where
  "shortPrompt p =
     toLowerCase (filter is_word_char
       (join (take 5 (filter (\<lambda>w. 3 < length w) (js_split p '' ''))) ''_''))"

definition enhance_dalle :: "mediaRef \<Rightarrow> mediaRef" where
  "enhance_dalle m =
     (case dalle m of
        None \<Rightarrow> m
      | Some d \<Rightarrow>
          if mtype m \<noteq> Some ''image'' then m
          else if truthy (prompt d) then
            (if shortPrompt (the (prompt d)) \<noteq> []
             then m\<lparr>customName := Some (''dalle_'' @ shortPrompt (the (prompt d)))\<rparr>
             else m\<lparr>customName := Some (''dalle_'' @
                    (case js_or (gen_id d) (fileId m) of
                       Some g \<Rightarrow> g | None \<Rightarrow> ''undefined''))\<rparr>)
          else if truthy (gen_id d) then m\<lparr>customName := Some (''dalle_'' @ the (gen_id d))\<rparr>
          else m)"

definition enhance_media :: "mediaRef \<Rightarrow> mediaRef" where
  "enhance_media m0 =
     (let m = enhance_dalle m0 in
      if truthy (title m) \<and> \<not> truthy (customName m)
      then m\<lparr>customName := Some (toLowerCase (sanitize (the (title m))))\<rparr>
      else m)"

text \<open>A reference with nothing set, and the generated-image reference of the scenario:
  pointer \<open>sediment://file_abcd1234\<close>, title "a red fox".\<close>

definition blank_ref :: mediaRef where
  "blank_ref = \<lparr>mtype = None, assetPointer = None, fileId = None, canvasId = None,
     renderedUrl = None, title = None, customName = None, filename = None, format = None,
     mime_type = None, dalle = None\<rparr>"

definition red_fox_ref :: mediaRef where
  "red_fox_ref = blank_ref\<lparr>mtype := Some ''image'',
     assetPointer := Some ''sediment://file_abcd1234'', title := Some ''a red fox''\<rparr>"

section \<open>File names: generated images\<close>


lemma red_fox_enhanced:
  "enhance_media red_fox_ref = red_fox_ref\<lparr>customName := Some ''a_red_fox''\<rparr>"
  by (simp add: enhance_media_def enhance_dalle_def red_fox_ref_def blank_ref_def truthy_def
      toLowerCase_def sanitize_def is_name_char_def lower_char_def Let_def)





section \<open>Collision-free names (ChatGPTHandler.extract, unnamed/part_001)\<close>

text \<open>The decimal digits of a counter, as the template \<open>`_${counter}`\<close> prints it.\<close>

definition digit_char :: "nat \<Rightarrow> char" where
  "digit_char d = ''0123456789'' ! d"

function decimal :: "nat \<Rightarrow> string" where
  "decimal n = (if n < 10 then [digit_char n] else decimal (n div 10) @ [digit_char (n mod 10)])"
  by pat_completeness auto
termination
  by (relation "measure id") auto

declare decimal.simps [simp del]

text \<open>The candidate for a counter: \<open>_counter\<close> goes before the last dot of the base name,
  or at its end when it has no dot.\<close>

definition with_suffix :: "string \<Rightarrow> nat \<Rightarrow> string" where
  "with_suffix baseName counter =
     (case lastIndexOf baseName (CHR ''.'') of
        Some lastDot \<Rightarrow>
          take lastDot baseName @ ''_'' @ decimal counter @ drop lastDot baseName
      | None \<Rightarrow> baseName @ ''_'' @ decimal counter)"

text \<open>The registry \<open>usedFilenames\<close> is a \<open>Set\<close>; the model keeps its elements in
  insertion order, and \<open>add\<close> leaves a set that has the element as it is.\<close>

definition registry_add :: "string \<Rightarrow> string list \<Rightarrow> string list" where
  "registry_add name used = (if name \<in> set used then used else used @ [name])"

text \<open>The loop \<open>while (usedFilenames.has(finalName)) { ...; counter++ }\<close>, from the
  state \<open>(finalName, counter)\<close>.\<close>

function dedupe :: "string list \<Rightarrow> string \<Rightarrow> string \<Rightarrow> nat \<Rightarrow> string" where
  "dedupe used baseName finalName counter =
     (if finalName \<in> set used
      then dedupe used baseName (with_suffix baseName counter) (counter + 1)
      else finalName)"
  by pat_completeness auto

lemma decimal_nonempty: "decimal n \<noteq> []"
  by (subst decimal.simps) simp

lemma digit_char_code: "d < 10 \<Longrightarrow> (of_char (digit_char d) :: nat) = 48 + d"
proof -
  assume "d < 10"
  then have "d = 0 \<or> d = 1 \<or> d = 2 \<or> d = 3 \<or> d = 4 \<or> d = 5 \<or> d = 6 \<or> d = 7
             \<or> d = 8 \<or> d = 9"
    by arith
  then show ?thesis by (elim disjE) (simp_all add: digit_char_def)
qed

lemma digit_char_inj:
  assumes "a < 10" and "b < 10" and "digit_char a = digit_char b"
  shows "a = b"
proof -
  have "(of_char (digit_char a) :: nat) = of_char (digit_char b)"
    by (simp only: assms(3))
  then have "48 + a = 48 + b"
    by (simp only: digit_char_code [OF assms(1)] digit_char_code [OF assms(2)])
  then show ?thesis by simp
qed

lemma decimal_inj: "decimal n = decimal m \<Longrightarrow> n = m"
proof (induction n arbitrary: m rule: less_induct)
  case (less n)
  show ?case
  proof (cases "n < 10")
    case n: True
    show ?thesis
    proof (cases "m < 10")
      case True
      with n less.prems show ?thesis
        by (simp add: decimal.simps [of n] decimal.simps [of m] digit_char_inj)
    next
      case False
      with n less.prems decimal_nonempty [of "m div 10"] show ?thesis
        by (simp add: decimal.simps [of n] decimal.simps [of m])
    qed
  next
    case n: False
    show ?thesis
    proof (cases "m < 10")
      case True
      with n less.prems decimal_nonempty [of "n div 10"] show ?thesis
        by (simp add: decimal.simps [of n] decimal.simps [of m])
    next
      case False
      with n less.prems have q: "decimal (n div 10) = decimal (m div 10)"
        and d: "digit_char (n mod 10) = digit_char (m mod 10)"
        by (simp_all add: decimal.simps [of n] decimal.simps [of m])
      from n have "n div 10 < n" by simp
      from less.IH [OF this q] have "n div 10 = m div 10" .
      moreover from d have "n mod 10 = m mod 10"
        by (rule digit_char_inj [rotated 2]) simp_all
      ultimately show ?thesis by (metis div_mult_mod_eq)
    qed
  qed
qed

lemma with_suffix_inj: "with_suffix b j = with_suffix b k \<Longrightarrow> j = k"
  by (auto simp: with_suffix_def dest: decimal_inj split: option.splits)

lemma with_suffix_longer: "length b < length (with_suffix b k)"
proof (cases "lastIndexOf b (CHR ''.'')")
  case None
  then show ?thesis by (simp add: with_suffix_def)
next
  case (Some i)
  have "length (take i b) + length (drop i b) = length b"
    by (metis append_take_drop_id length_append)
  then show ?thesis using Some by (simp add: with_suffix_def)
qed

lemma with_suffix_not_base: "with_suffix b k \<noteq> b"
  using with_suffix_longer [of b k] by auto

lemma finite_taken: "finite {k. with_suffix b k \<in> set used}"
proof -
  have "inj (with_suffix b)" by (rule injI) (rule with_suffix_inj)
  then have "finite (with_suffix b -` set used)" by (rule finite_vimageI [rotated]) simp
  then show ?thesis by (simp add: vimage_def)
qed

definition taken_from :: "string list \<Rightarrow> string \<Rightarrow> nat \<Rightarrow> nat set" where
  "taken_from used b c = {k. c \<le> k \<and> with_suffix b k \<in> set used}"

lemma finite_taken_from: "finite (taken_from used b c)"
  by (rule finite_subset [OF _ finite_taken [of b used]]) (auto simp: taken_from_def)

lemma taken_from_step:
  "taken_from used b c =
     (if with_suffix b c \<in> set used then insert c (taken_from used b (Suc c))
      else taken_from used b (Suc c))"
  by (auto simp: taken_from_def elim: le_neq_implies_less [THEN Suc_leI, rotated] dest: Suc_leD)
    (metis Suc_leI le_neq_implies_less)+

termination dedupe
proof (relation "measure (\<lambda>(used, b, f, c).
          card (taken_from used b c) + (if f \<in> set used then 1 else 0))")
  show "wf (measure (\<lambda>(used, b, f, c).
          card (taken_from used b c) + (if f \<in> set used then 1 else 0)))"
    by simp
next
  fix used :: "string list" and baseName finalName :: string and counter :: nat
  assume "finalName \<in> set used"
  moreover have "c \<notin> taken_from used b (Suc c)" for b c
    by (simp add: taken_from_def)
  ultimately show "((used, baseName, with_suffix baseName counter, counter + 1),
                    (used, baseName, finalName, counter))
        \<in> measure (\<lambda>(used, b, f, c).
             card (taken_from used b c) + (if f \<in> set used then 1 else 0))"
    by (simp add: taken_from_step [of used baseName counter] finite_taken_from)
qed

declare dedupe.simps [simp del]

text \<open>One pass of the \<open>forEach\<close> over the references that get a file, given the base
  name of each (after the map lookup, the fallback and the sanitizing replacement): the
  names assigned, in order, and the registry afterwards.\<close>

fun assign_names :: "string list \<Rightarrow> string list \<Rightarrow> string list \<times> string list" where
  "assign_names used [] = ([], used)"
| "assign_names used (baseName # rest) =
     (let finalName = dedupe used baseName baseName 1;
          r = assign_names (registry_add finalName used) rest
      in (finalName # fst r, snd r))"

text \<open>The \<open>k\<close>-th name of the pattern for a base name: the base itself, then the
  candidates for the counters 1, 2, ...\<close>

definition pattern_name :: "string \<Rightarrow> nat \<Rightarrow> string" where
  "pattern_name b k = (if k = 0 then b else with_suffix b k)"

section \<open>Collision-free names: distinctness and the pattern\<close>

lemma dedupe_fresh: "dedupe used b f c \<notin> set used"
  by (induction used b f c rule: dedupe.induct) (subst dedupe.simps, simp)

lemma assign_names_props:
  "distinct (fst (assign_names used bs))
   \<and> set (fst (assign_names used bs)) \<inter> set used = {}
   \<and> set (snd (assign_names used bs)) = set used \<union> set (fst (assign_names used bs))
   \<and> length (fst (assign_names used bs)) = length bs"
proof (induction bs arbitrary: used)
  case Nil
  show ?case by simp
next
  case (Cons b bs)
  define f where "f = dedupe used b b 1"
  define used' where "used' = registry_add f used"
  have fresh: "f \<notin> set used" unfolding f_def by (rule dedupe_fresh)
  then have u': "set used' = insert f (set used)"
    by (simp add: used'_def registry_add_def)
  from Cons.IH [of used'] have
    d: "distinct (fst (assign_names used' bs))"
    and i: "set (fst (assign_names used' bs)) \<inter> set used' = {}"
    and s: "set (snd (assign_names used' bs)) = set used' \<union> set (fst (assign_names used' bs))"
    and l: "length (fst (assign_names used' bs)) = length bs"
    by simp_all
  have eq: "assign_names used (b # bs)
              = (f # fst (assign_names used' bs), snd (assign_names used' bs))"
    by (simp add: f_def used'_def Let_def)
  from i u' have "f \<notin> set (fst (assign_names used' bs))" by auto
  with d i s l u' fresh show ?case unfolding eq by auto
qed

lemma pattern_names_distinct_counter: "j \<noteq> k \<Longrightarrow> pattern_name b j \<noteq> pattern_name b k"
  using with_suffix_inj with_suffix_not_base
  by (auto simp: pattern_name_def) metis+

lemma dedupe_runs_pattern:
  assumes used: "set used = pattern_name b ` {0..<n}" and c: "1 \<le> c" "c \<le> n"
  shows "dedupe used b (with_suffix b c) (c + 1) = with_suffix b n"
  using c
proof (induction "n - c" arbitrary: c)
  case 0
  then have cn: "c = n" by simp
  have "with_suffix b n \<notin> set used"
  proof
    assume "with_suffix b n \<in> set used"
    then obtain k where k: "k < n" "with_suffix b n = pattern_name b k"
      unfolding used by auto
    with 0(2) cn have "pattern_name b n = pattern_name b k"
      by (simp add: pattern_name_def)
    with k(1) pattern_names_distinct_counter [of n k b] show False by simp
  qed
  then show ?case unfolding cn by (subst dedupe.simps) simp
next
  case (Suc d)
  then have lt: "c < n" by simp
  have "with_suffix b c = pattern_name b c" using Suc.prems by (simp add: pattern_name_def)
  with lt have mem: "with_suffix b c \<in> set used" unfolding used by auto
  have "dedupe used b (with_suffix b (c + 1)) (c + 1 + 1) = with_suffix b n"
    by (rule Suc.hyps(1)) (use Suc.hyps(2) Suc.prems lt in simp_all)
  with mem show ?case by (subst dedupe.simps) simp
qed

lemma dedupe_next_pattern:
  assumes used: "set used = pattern_name b ` {0..<n}"
  shows "dedupe used b b 1 = pattern_name b n"
proof (cases "n = 0")
  case True
  then have "b \<notin> set used" using used by simp
  then show ?thesis using True by (subst dedupe.simps) (simp add: pattern_name_def)
next
  case False
  then have "pattern_name b 0 \<in> set used" unfolding used by (intro imageI) simp
  then have mem: "b \<in> set used" by (simp add: pattern_name_def)
  have "dedupe used b (with_suffix b 1) (1 + 1) = with_suffix b n"
    by (rule dedupe_runs_pattern [OF used]) (use False in simp_all)
  with mem False show ?thesis by (subst dedupe.simps) (simp add: pattern_name_def)
qed

lemma assign_names_same_base:
  assumes "set used = pattern_name b ` {0..<n}"
  shows "fst (assign_names used (replicate m b)) = map (pattern_name b) [n..<n + m]"
  using assms
proof (induction m arbitrary: used n)
  case 0
  show ?case by simp
next
  case (Suc m)
  have f: "dedupe used b b 1 = pattern_name b n"
    by (rule dedupe_next_pattern [OF Suc.prems])
  have "pattern_name b n \<notin> set used"
    using dedupe_fresh [of used b b 1] f by simp
  then have "set (registry_add (pattern_name b n) used) = pattern_name b ` {0..<Suc n}"
    using Suc.prems by (auto simp: registry_add_def less_Suc_eq)
  from Suc.IH [OF this]
  have ih: "fst (assign_names (registry_add (pattern_name b n) used) (replicate m b))
          = map (pattern_name b) [Suc n..<Suc n + m]" .
  have "fst (assign_names used (replicate (Suc m) b))
          = pattern_name b n
            # fst (assign_names (registry_add (pattern_name b n) used) (replicate m b))"
    using f by (simp add: Let_def)
  also have "\<dots> = pattern_name b n # map (pattern_name b) [Suc n..<Suc n + m]"
    by (simp only: ih)
  also have "\<dots> = map (pattern_name b) [n..<n + Suc m]"
    by (simp add: upt_conv_Cons del: upt_Suc)
  finally show ?case .
qed

text \<open>
  Claim C5, amended. In \<open>ChatGPTHandler.extract\<close>, which keeps the registry
  \<open>usedFilenames\<close> of one export: whatever base names a batch brings (colliding or not)
  and whatever the registry holds before, the names assigned are pairwise distinct, one
  per reference, none of them in the registry before, and all of them in the registry
  afterwards. When \<open>N\<close> references share one base name and the registry starts empty,
  the names are the base name and then the base name with \<open>_1\<close>, \<open>_2\<close>, ...,
  \<open>_(N-1)\<close> put before its extension, in this order.
\<close>

theorem colliding_names_get_distinct_suffixes:
  "distinct (fst (assign_names used bs))
   \<and> length (fst (assign_names used bs)) = length bs
   \<and> set (fst (assign_names used bs)) \<inter> set used = {}
   \<and> set (snd (assign_names used bs)) = set used \<union> set (fst (assign_names used bs))
   \<and> fst (assign_names [] (replicate N b)) = map (pattern_name b) [0..<N]"
proof -
  have "set [] = pattern_name b ` {0..<0}" by simp
  from assign_names_same_base [OF this, of N]
  have "fst (assign_names [] (replicate N b)) = map (pattern_name b) [0..<N]" by simp
  with assign_names_props [of used bs] show ?thesis by simp
qed

lemma image_x_names:
  "map (pattern_name ''image_x.png'') [0..<3]
     = [''image_x.png'', ''image_x_1.png'', ''image_x_2.png'']"
  by (simp add: upt_rec pattern_name_def with_suffix_def decimal.simps digit_char_def)

theorem colliding_names_get_distinct_suffixes_witness:
  "fst (assign_names [] (replicate 3 ''image_x.png''))
     = [''image_x.png'', ''image_x_1.png'', ''image_x_2.png'']
   \<and> distinct (fst (assign_names [] (replicate 3 ''image_x.png'')))
   \<and> set (snd (assign_names [] (replicate 3 ''image_x.png'')))
       = set (fst (assign_names [] (replicate 3 ''image_x.png'')))"
  using colliding_names_get_distinct_suffixes [of "[]" "replicate 3 ''image_x.png''" 3
      "''image_x.png''"]
  by (simp only: image_x_names) simp

section \<open>Archive packaging of one media item (createAndDownloadZip, unnamed/part_000)\<close>






























section \<open>Archive packaging: what is reported for an error body\<close>












section \<open>Resolving one reference (MediaDownloader.downloadMedia)\<close>

text \<open>
  \<open>downloadMedia\<close> talks to the browser and to the \<open>MediaFetcher\<close> module. The model
  takes them as a host: every operation reads and changes a host state \<open>'h\<close> (the network,
  the servers, the download manager), so that the same URL may be answered differently
  at different times. The authentication token is fixed for a call and is part of the
  host. What a conversation contributes is the result of the scans the source runs over
  \<open>JSON.stringify(conversationData)\<close>, and the folder name
  \<open>createConversationFolderName\<close> builds for it.
\<close>

text \<open>What a fetch of \<open>MediaFetcher\<close> returns: \<open>null\<close>, \<open>{redirectUrl}\<close>, or a success
  with its blob, content type and method.\<close>

datatype fetched = NoResult | RedirectTo string | Fetched string string

record conversation_scan =
  folder :: string
  sas_urls :: "(string \<times> string) list"
  sediment_matches :: "string list"
  file_url_matches :: "string list"
  file_ids :: "string list"
  filename_param :: "string \<Rightarrow> string option"

record 'h host =
  conversation :: "conversation_scan option"
  location_hostname :: string
  sedimentRegions :: "string list option"
  has_chrome_downloads :: bool
  dom_images :: "string list"
  directDownload :: "string \<Rightarrow> string \<Rightarrow> 'h \<Rightarrow> bool \<times> 'h"
  chromeDownload :: "string \<Rightarrow> string \<Rightarrow> 'h \<Rightarrow> bool \<times> 'h"
  downloadViaBackgroundScript :: "string \<Rightarrow> string list \<Rightarrow> 'h \<Rightarrow> bool \<times> 'h"
  fetchMetadataForUrls :: "string \<Rightarrow> 'h \<Rightarrow> string list \<times> 'h"
  fetchViaBackgroundScript :: "string \<Rightarrow> 'h \<Rightarrow> (string + fetched) \<times> 'h"
  fetchDirectly :: "string \<Rightarrow> 'h \<Rightarrow> (string + fetched) \<times> 'h"
  fetchFromSignedUrl :: "string \<Rightarrow> 'h \<Rightarrow> (string + fetched) \<times> 'h"
  downloadBlobToPath :: "string \<Rightarrow> 'h \<Rightarrow> bool \<times> 'h"

text \<open>Every call out of the module is recorded, in order, beside the host state; so is
  every call of the Candidate URL Generator.\<close>

datatype event =
    DirectDownload string string
  | ChromeDownload string string
  | GenerateUrls string string
  | BackgroundDownload string
  | FetchMetadata string
  | FetchBackground string
  | FetchDirect string
  | FetchSigned string
  | SaveBlob string
  | Progress string

type_synonym 'h world = "event list \<times> 'h"

definition call :: "event \<Rightarrow> ('h \<Rightarrow> 'a \<times> 'h) \<Rightarrow> 'h world \<Rightarrow> 'a \<times> 'h world" where
  "call ev f w = (case f (snd w) of (r, h') \<Rightarrow> (r, (fst w @ [ev], h')))"

text \<open>The result object of \<open>downloadMedia\<close>.\<close>

record download_result =
  dl_success :: bool
  dl_fileId :: "string option"
  dl_type :: "string option"
  dl_contentType :: "string option"
  dl_method :: "string option"
  dl_renderedUrl :: "string option"
  dl_has_blob :: bool
  dl_error :: "string option"

definition succeeded ::
  "mediaRef \<Rightarrow> string option \<Rightarrow> string option \<Rightarrow> string \<Rightarrow> string option \<Rightarrow> bool
   \<Rightarrow> download_result" where
  "succeeded m fid ct meth url blob =
     \<lparr>dl_success = True, dl_fileId = fid, dl_type = mtype m,
      dl_contentType = ct, dl_method = Some meth, dl_renderedUrl = url, dl_has_blob = blob,
      dl_error = None\<rparr>"

definition failed_with :: "mediaRef \<Rightarrow> string \<Rightarrow> download_result" where
  "failed_with m msg =
     \<lparr>dl_success = False, dl_fileId = js_or (fileId m) (assetPointer m), dl_type = mtype m,
      dl_contentType = None, dl_method = None, dl_renderedUrl = None, dl_has_blob = False,
      dl_error = Some msg\<rparr>"

text \<open>The list \<open>downloadMedia\<close> falls back to when the configuration has no regions.\<close>

definition downloader_default_regions :: "string list" where
  "downloader_default_regions =
     [''westus2'', ''eastus2'', ''centralus'', ''westus3'', ''eastus'', ''northcentralus'',
      ''southcentralus'', ''northeurope'', ''westeurope'', ''australiaeast'',
      ''southeastasia'', ''eastasia'']"

definition downloader_regions :: "'h host \<Rightarrow> string list" where
  "downloader_regions H =
     (case sedimentRegions H of Some rs \<Rightarrow> rs | None \<Rightarrow> downloader_default_regions)"

text \<open>The signed storage-mirror pattern of a rendered URL:
  \<open>renderedUrl.includes('sdmntpr') && renderedUrl.includes('/raw') && renderedUrl.includes('sig=')\<close>.\<close>

definition has_signed_mirror_url :: "mediaRef \<Rightarrow> bool" where
  "has_signed_mirror_url m =
     (truthy (renderedUrl m) \<and> str_includes (the (renderedUrl m)) ''sdmntpr''
      \<and> str_includes (the (renderedUrl m)) ''/raw''
      \<and> str_includes (the (renderedUrl m)) ''sig='')"

definition sediment_path :: "'h host \<Rightarrow> mediaRef \<Rightarrow> string" where
  "sediment_path H m =
     (case conversation H of Some c \<Rightarrow> folder c | None \<Rightarrow> ''chatgpt_export'')
     @ ''/media/'' @ createSuitableFilename m (Some ''image/png'')"

text \<open>The identifier of a sediment pointer with hyphens: the pointer without the scheme
  and without a leading \<open>file_\<close>.\<close>

definition pointer_uuid :: "string \<Rightarrow> string" where
  "pointer_uuid pointer =
     (let cleanId = replace_first pointer ''sediment://'' [];
          fileUuid = (if startsWith cleanId ''file_'' then drop 5 cleanId else cleanId)
      in uuidWithHyphens fileUuid)"

text \<open>The loop over the regions: the first region whose direct download succeeds.\<close>

fun try_regions ::
  "'h host \<Rightarrow> string \<Rightarrow> string \<Rightarrow> string list \<Rightarrow> 'h world \<Rightarrow> string option \<times> 'h world" where
  "try_regions H uuid path [] w = (None, w)"
| "try_regions H uuid path (region # rest) w =
     (case call (DirectDownload (sediment_url uuid region) path)
             (directDownload H (sediment_url uuid region) path) w of
        (ok, w') \<Rightarrow>
          if ok then (Some (sediment_url uuid region), w')
          else try_regions H uuid path rest w')"

text \<open>The special handling of sediment images, up to "continue with the standard
  approach": the result it returns, if it returns one.\<close>

definition sediment_strategy ::
  "'h host \<Rightarrow> mediaRef \<Rightarrow> 'h world \<Rightarrow> download_result option \<times> 'h world" where
  "sediment_strategy H m w =
     (if \<not> is_sediment_ref m then (None, w)
      else
        let first =
              (if has_signed_mirror_url m
               then call (DirectDownload (the (renderedUrl m)) (sediment_path H m))
                      (directDownload H (the (renderedUrl m)) (sediment_path H m)) w
               else (False, w))
        in if fst first
           then (Some (succeeded m (js_or (fileId m) (assetPointer m)) (Some ''image/png'')
                        ''direct_sediment_download_with_sas'' (renderedUrl m) False), snd first)
           else
             (case try_regions H (pointer_uuid (the (assetPointer m))) (sediment_path H m)
                     (downloader_regions H) (snd first) of
                (Some url, w') \<Rightarrow>
                  (Some (succeeded m (js_or (fileId m) (assetPointer m)) (Some ''image/png'')
                           ''direct_sediment_download'' (Some url) False), w')
              | (None, w') \<Rightarrow> (None, w')))"

text \<open>The direct strategy for a rendered URL from the DOM.\<close>

definition rendered_content_type :: "string \<Rightarrow> string" where
  "rendered_content_type url =
     (if str_includes url ''.jpg'' \<or> str_includes url ''.jpeg''
      then ''image/jpeg'' else ''image/png'')"

definition rendered_path :: "'h host \<Rightarrow> mediaRef \<Rightarrow> string" where
  "rendered_path H m =
     (let name = createSuitableFilename m
                   (Some (rendered_content_type (the (renderedUrl m))))
      in case conversation H of
           Some c \<Rightarrow> folder c @ ''/media/'' @ name
         | None \<Rightarrow> name)"

definition rendered_strategy ::
  "'h host \<Rightarrow> mediaRef \<Rightarrow> 'h world \<Rightarrow> download_result option \<times> 'h world" where
  "rendered_strategy H m w =
     (if \<not> (truthy (renderedUrl m) \<and> startsWith (the (renderedUrl m)) ''http'')
         \<or> \<not> has_chrome_downloads H
      then (None, w)
      else
        (case call (ChromeDownload (the (renderedUrl m)) (rendered_path H m))
                (chromeDownload H (the (renderedUrl m)) (rendered_path H m)) w of
           (ok, w1) \<Rightarrow>
             if ok
             then (Some (succeeded m (js_or (fileId m) (assetPointer m))
                           (Some (rendered_content_type (the (renderedUrl m))))
                           ''chrome_downloads_direct'' (renderedUrl m) False), w1)
             else
               (case call (DirectDownload (the (renderedUrl m)) (rendered_path H m))
                       (directDownload H (the (renderedUrl m)) (rendered_path H m)) w1 of
                  (ok2, w2) \<Rightarrow>
                    if ok2
                    then (Some (succeeded m (js_or (fileId m) (assetPointer m))
                                  (Some (rendered_content_type (the (renderedUrl m))))
                                  ''background_script_direct'' (renderedUrl m) False), w2)
                    else (None, w2))))"

text \<open>The candidate queue \<open>urlsToTry\<close>: both calls of the generator, the CDN guesses put
  in front, and for a sediment or \<open>file_\<close> identifier every region URL not yet in the
  list put in front, one after the other.\<close>

definition cdnUrls :: "string \<Rightarrow> string list" where
  "cdnUrls fid =
     (let cleanId = replace_first fid ''sediment://'' [];
          hasFilePrefix = startsWith cleanId ''file_'';
          actualId = (if hasFilePrefix then drop 5 cleanId else cleanId);
          withFilePrefix = (if hasFilePrefix then cleanId else ''file_'' @ cleanId)
      in [''https://files.oaiusercontent.com/file/'' @ actualId,
          ''https://files.oaiusercontent.com/file/'' @ withFilePrefix,
          ''https://files.oaiusercontent.com/file/'' @ cleanId,
          ''https://files.oaiusercontent.com/file-'' @ actualId,
          ''https://files.oaiusercontent.com/file-'' @ withFilePrefix,
          ''https://files.oaiusercontent.com/file-'' @ cleanId,
          ''https://cdn.oaistatic.com/'' @ actualId,
          ''https://cdn.oaistatic.com/'' @ withFilePrefix,
          ''https://cdn.oaistatic.com/'' @ cleanId,
          ''https://cdn.oaistatic.com/images/'' @ actualId @ ''.png'',
          ''https://cdn.oaistatic.com/images/'' @ withFilePrefix @ ''.png'',
          ''https://cdn.oaistatic.com/images/'' @ cleanId @ ''.png''])"

text \<open>\<open>for (const x of xs) if (!urls.includes(x)) urls.unshift(x)\<close>.\<close>

fun unshift_new :: "string list \<Rightarrow> string list \<Rightarrow> string list" where
  "unshift_new [] urls = urls"
| "unshift_new (x # xs) urls = unshift_new xs (if x \<in> set urls then urls else x # urls)"

definition initial_queue :: "'h host \<Rightarrow> string \<Rightarrow> string list" where
  "initial_queue H fid =
     (let primaryUrls = generateAlternativeUrls (sedimentRegions H) fid ''chat.openai.com'';
          secondaryUrls = generateAlternativeUrls (sedimentRegions H) fid (location_hostname H);
          urlsToTry = cdnUrls fid @ primaryUrls @ secondaryUrls
      in if str_includes fid ''sediment://'' \<or> startsWith fid ''file_''
         then unshift_new (map (sediment_url (pointer_uuid fid)) (downloader_regions H)) urlsToTry
         else urlsToTry)"

text \<open>The state of the loop "Try each URL in sequence": the queue (which grows while it
  is walked), the position in it, the error messages, the redirect URLs seen, and the
  world.\<close>

record 'h queue_state =
  q_urls :: "string list"
  q_pos :: nat
  q_errors :: "string list"
  q_redirects :: "string list"
  q_world :: "'h world"

datatype 'h step = Found string string string "'h queue_state" | Next "'h queue_state"

text \<open>A redirect found: it is noted, appended to the queue unless the queue has it, and
  the loop goes on with the next URL.\<close>

definition note_redirect :: "string \<Rightarrow> 'h queue_state \<Rightarrow> 'h queue_state" where
  "note_redirect u q =
     q\<lparr>q_redirects := q_redirects q @ [u],
       q_urls := (if u \<in> set (q_urls q) then q_urls q else q_urls q @ [u]),
       q_pos := Suc (q_pos q)\<rparr>"

text \<open>One turn of the loop, for the URL at the current position: the background fetch
  first and, unless it gave a redirect or a success, the direct fetch.\<close>

definition advance :: "'h queue_state \<Rightarrow> 'h queue_state" where
  "advance q = q\<lparr>q_pos := Suc (q_pos q)\<rparr>"

definition direct_turn :: "'h host \<Rightarrow> string \<Rightarrow> 'h queue_state \<Rightarrow> 'h step" where
  "direct_turn H url q =
     (case call (FetchDirect url) (fetchDirectly H url) (q_world q) of
        (Inl msg, w) \<Rightarrow> Next (advance (q\<lparr>q_world := w, q_errors := q_errors q @ [msg]\<rparr>))
      | (Inr (RedirectTo u), w) \<Rightarrow>
          if u \<noteq> [] then Next (note_redirect u (q\<lparr>q_world := w\<rparr>))
          else Next (advance (q\<lparr>q_world := w\<rparr>))
      | (Inr (Fetched ct meth), w) \<Rightarrow> Found ct meth url (q\<lparr>q_world := w\<rparr>)
      | (Inr NoResult, w) \<Rightarrow> Next (advance (q\<lparr>q_world := w\<rparr>)))"

definition try_url :: "'h host \<Rightarrow> 'h queue_state \<Rightarrow> 'h step" where
  "try_url H q =
     (let url = q_urls q ! q_pos q in
      case call (FetchBackground url) (fetchViaBackgroundScript H url) (q_world q) of
        (Inl msg, w) \<Rightarrow> direct_turn H url (q\<lparr>q_world := w, q_errors := q_errors q @ [msg]\<rparr>)
      | (Inr (RedirectTo u), w) \<Rightarrow>
          if u \<noteq> [] then Next (note_redirect u (q\<lparr>q_world := w\<rparr>))
          else direct_turn H url (q\<lparr>q_world := w\<rparr>)
      | (Inr (Fetched ct meth), w) \<Rightarrow> Found ct meth url (q\<lparr>q_world := w\<rparr>)
      | (Inr NoResult, w) \<Rightarrow> direct_turn H url (q\<lparr>q_world := w\<rparr>))"

text \<open>The loop \<open>for (const url of urlsToTry)\<close>. The iterator of a JavaScript array reads
  the length at every turn, so URLs appended on the way are visited too. The loop need
  not end: \<open>None\<close> is a run that goes on for ever.\<close>

partial_function (option) try_urls ::
  "'h host \<Rightarrow> 'h queue_state \<Rightarrow> ((string \<times> string \<times> string) option \<times> 'h queue_state) option"
where
  "try_urls H q =
     (if q_pos q < length (q_urls q) then
        (case try_url H q of
           Found ct meth url q' \<Rightarrow> Some (Some (ct, meth, url), q')
         | Next q' \<Rightarrow> try_urls H q')
      else Some (None, q))"

text \<open>\<open>MediaFetcher.fixContentTypeIssues\<close> on a response with a blob: the content type
  is made to agree with the extension of the file name the reference gets.\<close>

definition fixContentTypeIssues :: "mediaRef \<Rightarrow> string \<Rightarrow> string" where
  "fixContentTypeIssues m ct =
     (let fileExt = toLowerCase (split_pop (createSuitableFilename m (Some ct)) ''.'');
          ct1 = (if (fileExt = ''jpg'' \<or> fileExt = ''jpeg'')
                    \<and> (\<not> str_includes ct ''jpeg'' \<or> str_includes ct ''json'')
                 then ''image/jpeg'' else ct)
      in if fileExt = ''png'' \<and> (\<not> str_includes ct1 ''png'' \<or> str_includes ct1 ''json'')
         then ''image/png'' else ct1)"

text \<open>The fourth strategy: the redirect URLs once more, without credentials.\<close>

fun try_signed ::
  "'h host \<Rightarrow> string list \<Rightarrow> string list \<Rightarrow> 'h world
   \<Rightarrow> (string \<times> string) option \<times> string list \<times> 'h world" where
  "try_signed H [] errs w = (None, errs, w)"
| "try_signed H (url # rest) errs w =
     (case call (FetchSigned url) (fetchFromSignedUrl H url) w of
        (Inl msg, w') \<Rightarrow> try_signed H rest (errs @ [msg]) w'
      | (Inr (Fetched ct meth), w') \<Rightarrow> (Some (ct, meth), errs, w')
      | (Inr _, w') \<Rightarrow> try_signed H rest errs w')"

text \<open>\<open>mediaRef.assetPointer || mediaRef.fileId || mediaRef.canvasId\<close>, when one of them
  is truthy.\<close>

definition primary_id :: "mediaRef \<Rightarrow> string" where
  "primary_id m =
     (if truthy (assetPointer m) then the (assetPointer m)
      else if truthy (fileId m) then the (fileId m)
      else the (canvasId m))"

text \<open>The standard approach, from "Get file identifier" to the end.\<close>

definition standard_strategy ::
  "'h host \<Rightarrow> mediaRef \<Rightarrow> 'h world \<Rightarrow> (download_result \<times> 'h world) option" where
  "standard_strategy H m w =
     (if \<not> truthy (assetPointer m) \<and> \<not> truthy (fileId m) \<and> \<not> truthy (canvasId m)
      then Some (failed_with m ''No valid file identifier found'', w)
      else
        let fid = primary_id m;
            w0 = (fst w @ [GenerateUrls fid ''chat.openai.com'',
                          GenerateUrls fid (location_hostname H)], snd w);
            urlsToTry = initial_queue H fid
        in case call (BackgroundDownload fid) (downloadViaBackgroundScript H fid urlsToTry) w0 of
             (True, w1) \<Rightarrow>
               Some (succeeded m (Some fid) None ''background_direct'' None False, w1)
           | (False, w1) \<Rightarrow>
               (case call (FetchMetadata fid) (fetchMetadataForUrls H fid) w1 of
                  (additionalUrls, w2) \<Rightarrow>
                    (case try_urls H \<lparr>q_urls = unshift_new additionalUrls urlsToTry, q_pos = 0,
                                      q_errors = [], q_redirects = [], q_world = w2\<rparr> of
                       None \<Rightarrow> None
                     | Some (Some (ct, meth, url), q) \<Rightarrow>
                         Some (succeeded m (Some fid) (Some (fixContentTypeIssues m ct)) meth None True,
                               q_world q)
                     | Some (None, q) \<Rightarrow>
                         (case try_signed H (q_redirects q) (q_errors q) (q_world q) of
                            (Some (ct, meth), errs, w3) \<Rightarrow>
                              Some (succeeded m (Some fid) (Some (fixContentTypeIssues m ct)) meth None
                                      True, w3)
                          | (None, errs, w3) \<Rightarrow>
                              Some (failed_with m (''All URL formats failed. Errors: ''
                                                   @ join errs ''; ''), w3)))))"

text \<open>\<open>downloadMedia\<close>: the sediment handling, the rendered URL, the standard approach.
  \<open>None\<close> is a call that never returns.\<close>

definition downloadMedia ::
  "'h host \<Rightarrow> mediaRef \<Rightarrow> 'h world \<Rightarrow> (download_result \<times> 'h world) option" where
  "downloadMedia H m w =
     (case sediment_strategy H m w of
        (Some r, w1) \<Rightarrow> Some (r, w1)
      | (None, w1) \<Rightarrow>
          (case rendered_strategy H m w1 of
             (Some r, w2) \<Rightarrow> Some (r, w2)
           | (None, w2) \<Rightarrow> standard_strategy H m w2))"

text \<open>How often the Candidate URL Generator was called in a run.\<close>

definition generator_calls :: "event list \<Rightarrow> nat" where
  "generator_calls evs = length (filter (\<lambda>e. case e of GenerateUrls _ _ \<Rightarrow> True | _ \<Rightarrow> False) evs)"

section \<open>The batch (MediaDownloader.downloadAllMedia)\<close>

text \<open>The tally returned: the counts and, per file, its name (if it got one) and
  whether it counts as a success.\<close>

record tally =
  total :: nat
  completed :: nat
  failed :: nat
  files :: "(string option \<times> bool) list"

text \<open>The first pass over the references: a signed URL found in the conversation for
  the reference's identifier becomes its \<open>renderedUrl\<close>.\<close>

definition attach_sas :: "(string \<times> string) list \<Rightarrow> mediaRef \<Rightarrow> mediaRef" where
  "attach_sas sas m =
     (if is_sediment_ref m then
        (case find (\<lambda>item. fst item = pointer_uuid (the (assetPointer m))) sas of
           Some item \<Rightarrow> if snd item \<noteq> [] then m\<lparr>renderedUrl := Some (snd item)\<rparr> else m
         | None \<Rightarrow> m)
      else m)"

text \<open>\<open>MediaExtractor.findRenderedImages\<close> (mediaExtractor.js) for one reference, given
  the \<open>src\<close> of every image of the page: the first image whose source contains the
  identifier without a leading \<open>file_\<close> or \<open>file-\<close>. An absent identifier is searched
  for as the text \<open>undefined\<close>.\<close>

definition search_id :: "mediaRef \<Rightarrow> string" where
  "search_id m =
     (case fileId m of
        None \<Rightarrow> ''undefined''
      | Some i \<Rightarrow>
          let a = (if i \<noteq> [] \<and> startsWith i ''file_'' then drop 5 i else i)
          in if a \<noteq> [] \<and> startsWith a ''file-'' then drop 5 a else a)"

definition findRenderedImage :: "string list \<Rightarrow> mediaRef \<Rightarrow> mediaRef" where
  "findRenderedImage imgs m =
     (if mtype m \<noteq> Some ''image'' then m
      else
        (case find (\<lambda>src. src \<noteq> [] \<and> str_includes src (search_id m)) imgs of
           Some src \<Rightarrow> m\<lparr>renderedUrl := Some src\<rparr>
         | None \<Rightarrow> m))"

text \<open>The scan of the page and of the conversation before any download. The
  \<open>MediaExtractor\<close> of this repository has no \<open>findAllRenderedImages\<close>, so the branch
  that would add references for further images of the page is never taken.\<close>

definition correlate :: "'h host \<Rightarrow> mediaRef list \<Rightarrow> mediaRef list" where
  "correlate H refs =
     map (findRenderedImage (dom_images H))
       (case conversation H of
          Some c \<Rightarrow> map (attach_sas (sas_urls c)) refs
        | None \<Rightarrow> refs)"

text \<open>The group of \<open>/\/files\/([0-9a-f\-]+)\/raw/\<close>: after the leftmost \<open>/files/\<close> that
  is followed by a non-empty run of hexadecimal digits and hyphens and then \<open>/raw\<close>.\<close>

fun files_raw_id :: "string \<Rightarrow> string option" where
  "files_raw_id [] = None"
| "files_raw_id (c # cs) =
     (let rest = drop 7 (c # cs);
          run = takeWhile (\<lambda>x. is_hex_digit x \<or> x = CHR ''-'') rest
      in if startsWith (c # cs) ''/files/'' \<and> run \<noteq> []
            \<and> startsWith (drop (length run) rest) ''/raw''
         then Some run else files_raw_id cs)"

text \<open>The group of \<open>/\/([^\/\?]+)\?/\<close>: the leftmost path segment that a question mark
  ends.\<close>

fun query_segment :: "string \<Rightarrow> string option" where
  "query_segment [] = None"
| "query_segment (c # cs) =
     (let run = takeWhile (\<lambda>x. x \<noteq> CHR ''/'' \<and> x \<noteq> CHR ''?'') cs
      in if c = CHR ''/'' \<and> run \<noteq> [] \<and> startsWith (drop (length run) cs) ''?''
         then Some run else query_segment cs)"

text \<open>The name of the \<open>i\<close>-th direct URL. \<open>filename_param\<close> of the scan is the decoded
  group of \<open>/filename%3D([^&]+)/i\<close> in the URL, when it matches.\<close>

definition direct_file_name :: "conversation_scan \<Rightarrow> nat \<Rightarrow> string \<Rightarrow> string" where
  "direct_file_name c i directUrl =
     (let isSedimentUrl = (str_includes directUrl ''sdmntpr'' \<and> str_includes directUrl ''/raw'');
          dflt = ''direct-file-'' @ decimal i;
          fileName =
            (if isSedimentUrl then
               (case files_raw_id directUrl of
                  Some g \<Rightarrow> ''dalle_'' @ g @ ''.png''
                | None \<Rightarrow> dflt)
             else
               (case filename_param c directUrl of
                  Some n \<Rightarrow> if n \<noteq> [] then n else dflt
                | None \<Rightarrow>
                    (case query_segment directUrl of
                       Some g \<Rightarrow> ''file-'' @ g
                     | None \<Rightarrow> dflt)));
          fileExt =
            (if isSedimentUrl then ''png''
             else if str_includes directUrl ''jpg'' \<or> str_includes directUrl ''jpeg'' then ''jpg''
             else if str_includes directUrl ''png'' then ''png''
             else if str_includes directUrl ''pdf'' then ''pdf''
             else ''bin'')
      in if str_includes fileName ''.'' then fileName else fileName @ ''.'' @ fileExt)"

text \<open>\<open>for (const x of xs) if (!acc.includes(x)) acc.push(x)\<close>.\<close>

fun push_new :: "string list \<Rightarrow> string list \<Rightarrow> string list" where
  "push_new acc [] = acc"
| "push_new acc (x # xs) = push_new (if x \<in> set acc then acc else acc @ [x]) xs"

text \<open>The direct downloads of the URLs found in the conversation, from the \<open>i\<close>-th on.
  Each one dispatched counts as completed, whatever the download manager answers; without
  \<open>chrome.downloads\<close> the dispatch throws and nothing is counted.\<close>

fun direct_downloads ::
  "'h host \<Rightarrow> conversation_scan \<Rightarrow> nat \<Rightarrow> string list \<Rightarrow> tally \<Rightarrow> 'h world
   \<Rightarrow> tally \<times> 'h world" where
  "direct_downloads H c i [] t w = (t, w)"
| "direct_downloads H c i (directUrl # rest) t w =
     (if has_chrome_downloads H then
        (case call (ChromeDownload directUrl
                      (folder c @ ''/media/'' @ direct_file_name c i directUrl))
                (chromeDownload H directUrl
                      (folder c @ ''/media/'' @ direct_file_name c i directUrl)) w of
           (ok, w') \<Rightarrow>
             direct_downloads H c (Suc i) rest
               (t\<lparr>completed := Suc (completed t),
                   files := files t @ [(Some (direct_file_name c i directUrl), True)]\<rparr>) w')
      else direct_downloads H c (Suc i) rest t w)"

text \<open>The fallback "Try to find direct signed URLs in the JSON response if no media refs
  were found": taken when the reference list is empty (the failure count is still 0 at
  this point) and there is a conversation.\<close>

definition direct_url_fallback ::
  "'h host \<Rightarrow> mediaRef list \<Rightarrow> tally \<Rightarrow> 'h world \<Rightarrow> tally \<times> 'h world" where
  "direct_url_fallback H refs t w =
     (case conversation H of
        None \<Rightarrow> (t, w)
      | Some c \<Rightarrow>
          if refs = [] \<or> 0 < failed t
          then direct_downloads H c 0 (push_new (sediment_matches c) (file_url_matches c)) t w
          else (t, w))"

text \<open>The main loop: one reference after the other. A reference whose resolution never
  returns stops the batch there (\<open>None\<close>); a blob that cannot be saved makes
  \<open>downloadAllMedia\<close> reject (\<open>Inl\<close>).\<close>

fun download_each ::
  "'h host \<Rightarrow> nat \<Rightarrow> nat \<Rightarrow> mediaRef list \<Rightarrow> tally \<Rightarrow> 'h world
   \<Rightarrow> ((string + tally) \<times> 'h world) option" where
  "download_each H n i [] t w = Some (Inr t, w)"
| "download_each H n i (media # rest) t w =
     (case downloadMedia H media
             (fst w @ [Progress (''Downloading media '' @ decimal (Suc i) @ ''/''
                                 @ decimal n @ ''...'')], snd w) of
        None \<Rightarrow> None
      | Some (result, w1) \<Rightarrow>
          if dl_success result then
            let name = createSuitableFilename media (dl_contentType result);
                t1 = t\<lparr>completed := Suc (completed t),
                       files := files t @ [(Some name, True)]\<rparr>
            in if dl_has_blob result then
                 (case call (SaveBlob ((case conversation H of Some c \<Rightarrow> folder c
                                        | None \<Rightarrow> ''chatgpt_export'') @ ''/media/'' @ name))
                         (downloadBlobToPath H
                            ((case conversation H of Some c \<Rightarrow> folder c
                              | None \<Rightarrow> ''chatgpt_export'') @ ''/media/'' @ name)) w1 of
                    (True, w2) \<Rightarrow> download_each H n (Suc i) rest t1 w2
                  | (False, w2) \<Rightarrow> Some (Inl ''Download error'', w2))
               else download_each H n (Suc i) rest t1 w1
          else
            download_each H n (Suc i) rest
              (t\<lparr>failed := Suc (failed t), files := files t @ [(None, False)]\<rparr>) w1)"

definition downloadAllMedia ::
  "'h host \<Rightarrow> mediaRef list \<Rightarrow> 'h world \<Rightarrow> ((string + tally) \<times> 'h world) option" where
  "downloadAllMedia H mediaReferences w =
     (let refs = map enhance_media (correlate H mediaReferences);
          results = \<lparr>total = length refs, completed = 0, failed = 0, files = []\<rparr>
      in case direct_url_fallback H refs results w of
           (results', w') \<Rightarrow> download_each H (length refs) 0 refs results' w')"

section \<open>Resolving one reference: the signed rendered URL\<close>

text \<open>A host without a conversation whose operations all fail except the background
  script's own download of the raw identifier; and the generated-image reference of the
  scenario with a signed storage-mirror URL from the page.\<close>

definition failing_host :: "unit host" where
  "failing_host =
     \<lparr>conversation = None, location_hostname = ''chatgpt.com'',
      sedimentRegions = Some config_sedimentRegions, has_chrome_downloads = False,
      dom_images = [],
      directDownload = (\<lambda>url path h. (False, h)),
      chromeDownload = (\<lambda>url path h. (False, h)),
      downloadViaBackgroundScript = (\<lambda>fid urls h. (True, h)),
      fetchMetadataForUrls = (\<lambda>fid h. ([], h)),
      fetchViaBackgroundScript = (\<lambda>url h. (Inr NoResult, h)),
      fetchDirectly = (\<lambda>url h. (Inr NoResult, h)),
      fetchFromSignedUrl = (\<lambda>url h. (Inr NoResult, h)),
      downloadBlobToPath = (\<lambda>path h. (True, h))\<rparr>"

definition signed_fox_ref :: mediaRef where
  "signed_fox_ref = red_fox_ref\<lparr>renderedUrl :=
     Some ''https://sdmntprwestus2.oaiusercontent.com/files/abcd1234/raw?se=2025&sig=abc''\<rparr>"

lemma signed_fox_matches:
  "is_sediment_ref signed_fox_ref" "has_signed_mirror_url signed_fox_ref"
  by (simp_all add: signed_fox_ref_def red_fox_ref_def blank_ref_def is_sediment_ref_def
      has_signed_mirror_url_def truthy_def startsWith_def)

lemma try_regions_all_fail:
  "try_regions failing_host uuid path regions w
     = (None, (fst w @ map (\<lambda>r. DirectDownload (sediment_url uuid r) path) regions, snd w))"
  by (induction regions arbitrary: w) (simp_all add: call_def failing_host_def prod_eq_iff)

lemma generator_calls_append:
  "generator_calls (xs @ ys) = generator_calls xs + generator_calls ys"
  by (simp add: generator_calls_def)

lemma generator_calls_direct:
  "generator_calls (map (\<lambda>r. DirectDownload (f r) p) rs) = 0"
  by (induction rs) (simp_all add: generator_calls_def)

text \<open>
  Claim C2 as stated fails. The reference carries a rendered URL of the signed
  storage-mirror pattern, but the privileged download of it is refused (as are the
  downloads from the region mirrors). \<open>downloadMedia\<close> then goes on to the standard
  approach: it calls the Candidate URL Generator twice, and the success it returns comes
  from there (method \<open>background_direct\<close>), not from the privileged direct download.
\<close>

theorem refused_direct_download_reaches_generator:
  "has_signed_mirror_url signed_fox_ref
   \<and> map_option (dl_method \<circ> fst) (downloadMedia failing_host signed_fox_ref ([], ()))
       = Some (Some ''background_direct'')
   \<and> map_option (generator_calls \<circ> fst \<circ> snd)
        (downloadMedia failing_host signed_fox_ref ([], ())) = Some 2"
proof -
  have sed: "sediment_strategy failing_host signed_fox_ref ([], ())
      = (None,
         ([DirectDownload (the (renderedUrl signed_fox_ref))
             (sediment_path failing_host signed_fox_ref)]
          @ map (\<lambda>r. DirectDownload
                   (sediment_url (pointer_uuid (the (assetPointer signed_fox_ref))) r)
                   (sediment_path failing_host signed_fox_ref))
              (downloader_regions failing_host), ()))"
    by (simp add: sediment_strategy_def signed_fox_matches Let_def try_regions_all_fail)
      (simp add: call_def failing_host_def)
  have ren: "rendered_strategy failing_host signed_fox_ref w = (None, w)" for w
    by (cases w) (simp add: rendered_strategy_def failing_host_def)
  have ids: "truthy (assetPointer signed_fox_ref)"
    by (simp add: signed_fox_ref_def red_fox_ref_def blank_ref_def truthy_def)
  have std: "standard_strategy failing_host signed_fox_ref (evs, ())
      = Some (succeeded signed_fox_ref (Some (primary_id signed_fox_ref)) None
                ''background_direct'' None False,
              (evs @ [GenerateUrls (primary_id signed_fox_ref) ''chat.openai.com'',
                      GenerateUrls (primary_id signed_fox_ref) ''chatgpt.com'',
                      BackgroundDownload (primary_id signed_fox_ref)], ()))" for evs
    using ids by (simp add: standard_strategy_def Let_def call_def failing_host_def)
  show ?thesis
    by (simp add: downloadMedia_def sed ren std signed_fox_matches succeeded_def
        generator_calls_append generator_calls_direct)
      (simp add: generator_calls_def)
qed

text \<open>
  Claim C2, amended. For a generated-image (sediment) reference whose rendered URL
  matches the signed storage-mirror pattern, \<open>downloadMedia\<close> first hands that URL to
  the privileged direct download; when that download reports success, the call returns
  success at once with method \<open>direct_sediment_download_with_sas\<close> and content type
  \<open>image/png\<close>, having made that one call only: the Candidate URL Generator has not
  been called.
\<close>

theorem signed_rendered_url_short_circuits:
  assumes "is_sediment_ref m" and "has_signed_mirror_url m"
    and "directDownload H (the (renderedUrl m)) (sediment_path H m) h = (True, h')"
  shows "downloadMedia H m (evs, h)
           = Some (succeeded m (js_or (fileId m) (assetPointer m)) (Some ''image/png'')
                     ''direct_sediment_download_with_sas'' (renderedUrl m) False,
                   (evs @ [DirectDownload (the (renderedUrl m)) (sediment_path H m)], h'))
         \<and> generator_calls (evs @ [DirectDownload (the (renderedUrl m)) (sediment_path H m)])
             = generator_calls evs"
  using assms
  by (simp add: downloadMedia_def sediment_strategy_def call_def Let_def
      generator_calls_def)

definition willing_host :: "unit host" where
  "willing_host = failing_host\<lparr>directDownload := (\<lambda>url path h. (True, h))\<rparr>"

theorem signed_rendered_url_short_circuits_witness:
  "is_sediment_ref signed_fox_ref \<and> has_signed_mirror_url signed_fox_ref
   \<and> map_option (dl_success \<circ> fst) (downloadMedia willing_host signed_fox_ref ([], ()))
       = Some True
   \<and> map_option (dl_method \<circ> fst) (downloadMedia willing_host signed_fox_ref ([], ()))
       = Some (Some ''direct_sediment_download_with_sas'')
   \<and> map_option (generator_calls \<circ> fst \<circ> snd)
        (downloadMedia willing_host signed_fox_ref ([], ())) = Some 0"
proof -
  have d: "directDownload willing_host (the (renderedUrl signed_fox_ref))
             (sediment_path willing_host signed_fox_ref) () = (True, ())"
    by (simp add: willing_host_def)
  from signed_rendered_url_short_circuits [OF signed_fox_matches d, of "[]"]
  show ?thesis
    by (simp add: signed_fox_matches succeeded_def generator_calls_def)
qed

section \<open>The batch: an empty reference set\<close>

text \<open>The direct URLs the fallback would download: the URLs of the storage and file hosts
  found in the conversation.\<close>

definition direct_urls :: "'h host \<Rightarrow> string list" where
  "direct_urls H =
     (case conversation H of
        None \<Rightarrow> []
      | Some c \<Rightarrow> push_new (sediment_matches c) (file_url_matches c))"

text \<open>A conversation without references whose JSON holds one signed file URL.\<close>

definition one_url_scan :: conversation_scan where
  "one_url_scan =
     \<lparr>folder = ''Chat_2025-01-01_c1'', sas_urls = [], sediment_matches = [],
      file_url_matches = [''https://files.oaiusercontent.com/file-abc?sig=1''],
      file_ids = [], filename_param = (\<lambda>url. None)\<rparr>"

definition one_url_host :: "unit host" where
  "one_url_host = failing_host\<lparr>conversation := Some one_url_scan,
                                has_chrome_downloads := True\<rparr>"

text \<open>
  Claim C8 as stated fails. With an empty reference set and a conversation whose JSON
  holds a URL of the file host, \<open>downloadAllMedia\<close> takes its fallback for "no media
  refs were found": it dispatches a download of that URL and counts it as completed. The
  tally is total 0, completed 1, failed 0, and a download was dispatched.
\<close>

theorem empty_reference_set_still_downloads:
  "downloadAllMedia one_url_host [] ([], ())
     = Some (Inr \<lparr>total = 0, completed = 1, failed = 0,
                 files = [(Some ''file-file-abc.bin'', True)]\<rparr>,
             ([ChromeDownload ''https://files.oaiusercontent.com/file-abc?sig=1''
                 ''Chat_2025-01-01_c1/media/file-file-abc.bin''], ()))"
proof -
  have n: "direct_file_name one_url_scan 0 ''https://files.oaiusercontent.com/file-abc?sig=1''
             = ''file-file-abc.bin''"
    by (simp add: direct_file_name_def one_url_scan_def startsWith_def Let_def)
  have h: "conversation one_url_host = Some one_url_scan" "has_chrome_downloads one_url_host"
    "chromeDownload one_url_host = (\<lambda>url path h. (False, h))"
    by (simp_all add: one_url_host_def failing_host_def)
  have u: "push_new (sediment_matches one_url_scan) (file_url_matches one_url_scan)
             = [''https://files.oaiusercontent.com/file-abc?sig=1'']"
    "folder one_url_scan = ''Chat_2025-01-01_c1''"
    by (simp_all add: one_url_scan_def)
  show ?thesis
    by (simp add: downloadAllMedia_def correlate_def direct_url_fallback_def h u n call_def)
qed

lemma direct_downloads_nothing:
  "urls = [] \<or> \<not> has_chrome_downloads H \<Longrightarrow> direct_downloads H c i urls t w = (t, w)"
  by (induction urls arbitrary: i) auto

text \<open>
  Claim C8, amended. For an empty reference set, when the conversation is absent or its
  JSON holds no URL of the storage and file hosts (or the download manager is not
  available to the page), \<open>downloadAllMedia\<close> returns the tally total 0, completed 0,
  failed 0 with no file, and makes no call at all on the way: no fetch, no download
  dispatch, no progress message.
\<close>

theorem empty_reference_set_tally:
  assumes "direct_urls H = [] \<or> \<not> has_chrome_downloads H"
  shows "downloadAllMedia H [] w
           = Some (Inr \<lparr>total = 0, completed = 0, failed = 0, files = []\<rparr>, w)"
proof (cases "conversation H")
  case None
  then show ?thesis
    by (simp add: downloadAllMedia_def correlate_def direct_url_fallback_def)
next
  case (Some c)
  with assms have "push_new (sediment_matches c) (file_url_matches c) = []
                   \<or> \<not> has_chrome_downloads H"
    by (simp add: direct_urls_def)
  from direct_downloads_nothing [OF this] Some show ?thesis
    by (simp add: downloadAllMedia_def correlate_def direct_url_fallback_def)
qed

theorem empty_reference_set_tally_witness:
  "direct_urls failing_host = []
   \<and> downloadAllMedia failing_host [] ([], ())
       = Some (Inr \<lparr>total = 0, completed = 0, failed = 0, files = []\<rparr>, ([], ()))"
proof -
  have d: "direct_urls failing_host = []"
    by (simp add: direct_urls_def failing_host_def)
  then have "direct_urls failing_host = [] \<or> \<not> has_chrome_downloads failing_host" by simp
  from empty_reference_set_tally [OF this, of "([], ())"] d show ?thesis by simp
qed

section \<open>The candidate loop: redirects, queue growth, termination\<close>


























section \<open>Names in a batch of downloads (downloadAllMedia)\<close>

text \<open>Two image references without title or custom name, with different identifiers and
  the same original file name \<open>image_x.jpg\<close>; and a second generated image titled
  "a red fox".\<close>

definition image_x_a :: mediaRef where
  "image_x_a = blank_ref\<lparr>mtype := Some ''image'', fileId := Some ''file-aaa111'',
     filename := Some ''image_x.jpg''\<rparr>"

definition image_x_b :: mediaRef where
  "image_x_b = blank_ref\<lparr>mtype := Some ''image'', fileId := Some ''file-bbb222'',
     filename := Some ''image_x.jpg''\<rparr>"

definition other_fox_ref :: mediaRef where
  "other_fox_ref = red_fox_ref\<lparr>assetPointer := Some ''sediment://file_ef567890''\<rparr>"

text \<open>The tally of a batch that returned.\<close>

definition tally_of :: "((string + tally) \<times> 'h world) option \<Rightarrow> tally option" where
  "tally_of r = (case r of Some (Inr t, w) \<Rightarrow> Some t | _ \<Rightarrow> None)"

lemma image_x_name:
  "createSuitableFilename image_x_a ct = ''image_x.jpg''"
  "createSuitableFilename image_x_b ct = ''image_x.jpg''"
  by (simp_all add: createSuitableFilename_def image_x_a_def image_x_b_def blank_ref_def
      is_sediment_ref_def truthy_def getAppropriateFileExtension_def split_pop_def
      js_split_def startsWith_def toLowerCase_def lower_char_def without_extension_def
      Let_def)

lemma image_x_plain:
  "enhance_media image_x_a = image_x_a" "enhance_media image_x_b = image_x_b"
  "findRenderedImage [] image_x_a = image_x_a" "findRenderedImage [] image_x_b = image_x_b"
  by (simp_all add: enhance_media_def enhance_dalle_def findRenderedImage_def image_x_a_def
      image_x_b_def blank_ref_def truthy_def)

lemma background_download_accepted:
  assumes "\<not> is_sediment_ref m" and "renderedUrl m = None" and "truthy (fileId m)"
  shows "downloadMedia failing_host m (evs, ())
           = Some (succeeded m (Some (primary_id m)) None ''background_direct'' None False,
                   (evs @ [GenerateUrls (primary_id m) ''chat.openai.com'',
                           GenerateUrls (primary_id m) ''chatgpt.com'',
                           BackgroundDownload (primary_id m)], ()))"
  using assms
  by (simp add: downloadMedia_def sediment_strategy_def rendered_strategy_def
      standard_strategy_def truthy_def Let_def call_def failing_host_def)

lemma image_x_shape:
  "\<not> is_sediment_ref image_x_a" "renderedUrl image_x_a = None" "truthy (fileId image_x_a)"
  "\<not> is_sediment_ref image_x_b" "renderedUrl image_x_b = None" "truthy (fileId image_x_b)"
  by (simp_all add: image_x_a_def image_x_b_def blank_ref_def is_sediment_ref_def truthy_def)

text \<open>
  Claim C5 as stated fails for the names \<open>downloadAllMedia\<close> gives. It names every
  downloaded file with \<open>createSuitableFilename\<close>, which reads the reference and the
  content type only: there is no registry on this path. Two different references whose
  synthesized names collide get the same file name: both images with the original name
  \<open>image_x.jpg\<close> are recorded as \<open>image_x.jpg\<close> (not \<open>image_x.jpg\<close> and
  \<open>image_x_1.jpg\<close>), and both generated images titled "a red fox" are named
  \<open>a_red_fox.png\<close>.
\<close>

theorem batch_download_names_collide:
  "image_x_a \<noteq> image_x_b
   \<and> tally_of (downloadAllMedia failing_host [image_x_a, image_x_b] ([], ()))
       = Some \<lparr>total = 2, completed = 2, failed = 0,
               files = [(Some ''image_x.jpg'', True), (Some ''image_x.jpg'', True)]\<rparr>
   \<and> \<not> distinct [''image_x.jpg'', ''image_x.jpg'']
   \<and> red_fox_ref \<noteq> other_fox_ref
   \<and> createSuitableFilename (enhance_media red_fox_ref) (Some ''image/png'') = ''a_red_fox.png''
   \<and> createSuitableFilename (enhance_media other_fox_ref) (Some ''image/png'')
       = ''a_red_fox.png''"
proof -
  have ne: "image_x_a \<noteq> image_x_b" "red_fox_ref \<noteq> other_fox_ref"
    by (simp_all add: image_x_a_def image_x_b_def other_fox_ref_def red_fox_ref_def
        blank_ref_def)
  have h: "conversation failing_host = None" "dom_images failing_host = []"
    by (simp_all add: failing_host_def)
  have refs: "map enhance_media (correlate failing_host [image_x_a, image_x_b])
                = [image_x_a, image_x_b]"
    by (simp add: correlate_def h image_x_plain)
  note dm = background_download_accepted [OF image_x_shape(1-3)]
    background_download_accepted [OF image_x_shape(4-6)]
  have run: "tally_of (downloadAllMedia failing_host [image_x_a, image_x_b] ([], ()))
       = Some \<lparr>total = 2, completed = 2, failed = 0,
               files = [(Some ''image_x.jpg'', True), (Some ''image_x.jpg'', True)]\<rparr>"
    by (simp add: downloadAllMedia_def refs direct_url_fallback_def h dm succeeded_def
        image_x_name tally_of_def Let_def)
  have fox: "createSuitableFilename (enhance_media red_fox_ref) (Some ''image/png'')
               = ''a_red_fox.png''"
    unfolding red_fox_enhanced
    by (simp add: createSuitableFilename_def is_sediment_ref_def red_fox_ref_def blank_ref_def
        truthy_def startsWith_def Let_def)
  have e: "enhance_media other_fox_ref = other_fox_ref\<lparr>customName := Some ''a_red_fox''\<rparr>"
    by (simp add: enhance_media_def enhance_dalle_def other_fox_ref_def red_fox_ref_def
        blank_ref_def truthy_def toLowerCase_def sanitize_def is_name_char_def lower_char_def
        Let_def)
  have fox': "createSuitableFilename (enhance_media other_fox_ref) (Some ''image/png'')
               = ''a_red_fox.png''"
    unfolding e
    by (simp add: createSuitableFilename_def is_sediment_ref_def other_fox_ref_def
        red_fox_ref_def blank_ref_def truthy_def startsWith_def Let_def)
  from ne run fox fox' show ?thesis by simp
qed

end
